theory Spec2Isabelle
  imports Main "HOL-Library.Sublist"
begin

unbundle bit_operations_syntax

section \<open>Tokens, macros and the preprocessor object\<close>

text \<open>
  The token types of the default lexer of \<^verbatim>\<open>pcpp.py\<close>. PLY gives a literal character
  (and a character no rule matches, see \<^verbatim>\<open>t_error\<close>) the character itself as its type;
  both comment rules retype their token to \<^verbatim>\<open>CPP_WS\<close>.
\<close>

datatype tok_type =
  CPP_ID | CPP_INTEGER | CPP_FLOAT | CPP_STRING | CPP_CHAR | CPP_WS | CPP_POUND | CPP_DPOUND
  | LIT char

text \<open>The type tag as the Python string it is (the writer tests it as a substring).\<close>

fun type_name :: "tok_type \<Rightarrow> string" where
  "type_name CPP_ID = ''CPP_ID''"
| "type_name CPP_INTEGER = ''CPP_INTEGER''"
| "type_name CPP_FLOAT = ''CPP_FLOAT''"
| "type_name CPP_STRING = ''CPP_STRING''"
| "type_name CPP_CHAR = ''CPP_CHAR''"
| "type_name CPP_WS = ''CPP_WS''"
| "type_name CPP_POUND = ''CPP_POUND''"
| "type_name CPP_DPOUND = ''CPP_DPOUND''"
| "type_name (LIT c) = [c]"

text \<open>
  A Python attribute that an object may lack (\<^verbatim>\<open>hasattr\<close>): a \<^verbatim>\<open>LexToken\<close> has
  \<^verbatim>\<open>type\<close>, \<^verbatim>\<open>value\<close> and \<^verbatim>\<open>lineno\<close>; \<^verbatim>\<open>source\<close> is set by
  \<^verbatim>\<open>group_lines\<close> (and may be Python's \<^verbatim>\<open>None\<close>), \<^verbatim>\<open>expanded_from\<close> by
  \<^verbatim>\<open>expand_macros\<close>.
\<close>

datatype 'a attr = Missing | Attr 'a

text \<open>
  Tokens are mutable objects, so they live in a store and token lists hold addresses.
  \<^verbatim>\<open>expanded_from\<close> is a Python list, itself an object that \<^verbatim>\<open>copy.copy\<close> of a token
  shares: the token holds the address of the list.
\<close>

record token =
  ttype :: tok_type
  tvalue :: string
  lineno :: int
  source :: "string option attr"
  expanded_from :: "nat attr"

datatype ptype = PC | PE

record macro =
  mname :: string
  mvalue :: "nat list"
  arglist :: "string list option"
  variadic :: bool
  vararg :: string
  patch :: "(ptype \<times> nat \<times> nat) list"
  str_patch :: "(nat \<times> nat) list"
  var_comma_patch :: "nat list"

text \<open>
  The preprocessor object together with the store of tokens and of \<^verbatim>\<open>expanded_from\<close>
  lists, what \<^verbatim>\<open>print\<close> has written (one entry per call), the tokens the generator
  \<^verbatim>\<open>parsegen\<close> has yielded so far and the file names handed to \<^verbatim>\<open>open\<close>.
\<close>

record preprocessor =
  tok_at :: "nat \<Rightarrow> token"
  next_tok :: nat
  ef_at :: "nat \<Rightarrow> string list"
  next_ef :: nat
  macros :: "string \<Rightarrow> macro option"
  path :: "string list"
  temp_path :: "string list"
  return_code :: int
  cur_source :: string
  printed :: "string list"
  stderr :: "string list"
  yielded :: "nat list"
  opened :: "string list"

section \<open>Results: a value, a Python exception, or no result\<close>

datatype exn = IndexError | AttributeError | KeyError | UnboundLocalError

datatype 'a result = Ok 'a preprocessor | Raise exn preprocessor | OutOfFuel

type_synonym 'a M = "preprocessor \<Rightarrow> 'a result"

definition ret :: "'a \<Rightarrow> 'a M" where
  "ret x s = Ok x s"

definition raise :: "exn \<Rightarrow> 'a M" where
  "raise e s = Raise e s"

definition bind :: "'a M \<Rightarrow> ('a \<Rightarrow> 'b M) \<Rightarrow> 'b M" where
  "bind f g s = (case f s of Ok x s' \<Rightarrow> g x s' | Raise e s' \<Rightarrow> Raise e s' | OutOfFuel \<Rightarrow> OutOfFuel)"

definition get :: "(preprocessor \<Rightarrow> 'a) \<Rightarrow> 'a M" where
  "get f s = Ok (f s) s"

definition modify :: "(preprocessor \<Rightarrow> preprocessor) \<Rightarrow> unit M" where
  "modify f s = Ok () (f s)"

fun mapM :: "('a \<Rightarrow> 'b M) \<Rightarrow> 'a list \<Rightarrow> 'b list M" where
  "mapM f [] = ret []"
| "mapM f (x # xs) = bind (f x) (\<lambda>y. bind (mapM f xs) (\<lambda>ys. ret (y # ys)))"

fun forM :: "'a list \<Rightarrow> ('a \<Rightarrow> unit M) \<Rightarrow> unit M" where
  "forM [] f = ret ()"
| "forM (x # xs) f = bind (f x) (\<lambda>_. forM xs f)"

section \<open>Decimal numerals (Python's str of an int)\<close>

definition digit :: "nat \<Rightarrow> char" where
  "digit n = ''0123456789'' ! n"

function show_nat :: "nat \<Rightarrow> string" where
  "show_nat n = (if n < 10 then [digit n] else show_nat (n div 10) @ [digit (n mod 10)])"
  by pat_completeness auto
termination
  by (relation "measure id") auto

declare show_nat.simps [simp del]

definition show_int :: "int \<Rightarrow> string" where
  "show_int i = (if i < 0 then CHR ''-'' # show_nat (nat (- i)) else show_nat (nat i))"

section \<open>error()\<close>

text \<open>
  \<^verbatim>\<open>print("%s:%d %s" % (file,line,msg)); self.return_code += 1\<close>. \<^verbatim>\<open>print\<close> writes to
  the standard output; \<^verbatim>\<open>%s\<close> of \<^verbatim>\<open>None\<close> is the text \<^verbatim>\<open>None\<close>.
\<close>

definition py_str :: "string option \<Rightarrow> string" where
  "py_str file = (case file of None \<Rightarrow> ''None'' | Some f \<Rightarrow> f)"

definition diagnostic :: "string option \<Rightarrow> int \<Rightarrow> string \<Rightarrow> string" where
  "diagnostic file line msg = py_str file @ '':'' @ show_int line @ '' '' @ msg"

definition error :: "string option \<Rightarrow> int \<Rightarrow> string \<Rightarrow> unit M" where
  "error file line msg =
     modify (\<lambda>s. s\<lparr>printed := printed s @ [diagnostic file line msg],
                   return_code := return_code s + 1\<rparr>)"

text \<open>
  Every call site passes \<^verbatim>\<open>tok.source, tok.lineno\<close> of a token picked from a list by
  index: \<^verbatim>\<open>error_at toks k msg\<close> is \<^verbatim>\<open>self.error(toks[k].source, toks[k].lineno, msg)\<close>
  with the \<^verbatim>\<open>IndexError\<close> of the subscript and the \<^verbatim>\<open>AttributeError\<close> of a token
  without \<^verbatim>\<open>source\<close>, both raised before \<^verbatim>\<open>error\<close> is entered.
\<close>

definition error_tok :: "nat \<Rightarrow> string \<Rightarrow> unit M" where
  "error_tok a msg s =
     (case source (tok_at s a) of
        Missing \<Rightarrow> Raise AttributeError s
      | Attr file \<Rightarrow> error file (lineno (tok_at s a)) msg s)"

definition error_first :: "nat list \<Rightarrow> string \<Rightarrow> unit M" where
  "error_first toks msg = (case toks of [] \<Rightarrow> raise IndexError | a # _ \<Rightarrow> error_tok a msg)"

definition error_last :: "nat list \<Rightarrow> string \<Rightarrow> unit M" where
  "error_last toks msg = (if toks = [] then raise IndexError else error_tok (last toks) msg)"

section \<open>tokenstrip() and collect_args()\<close>

definition is_ws :: "preprocessor \<Rightarrow> nat \<Rightarrow> bool" where
  "is_ws s a = (ttype (tok_at s a) = CPP_WS)"

definition val :: "preprocessor \<Rightarrow> nat \<Rightarrow> string" where
  "val s a = tvalue (tok_at s a)"

definition tokenstrip :: "preprocessor \<Rightarrow> nat list \<Rightarrow> nat list" where
  "tokenstrip s tokens = rev (dropWhile (is_ws s) (rev (dropWhile (is_ws s) tokens)))"

text \<open>
  The scanning loop of \<^verbatim>\<open>collect_args\<close>, entered after the opening parenthesis: the
  first argument is \<^verbatim>\<open>tokenlist[i:]\<close>. \<^verbatim>\<open>None\<close> is the loop running off the end of the
  list (no closing parenthesis).
\<close>

fun collect_loop ::
  "preprocessor \<Rightarrow> nat list \<Rightarrow> nat \<Rightarrow> int \<Rightarrow> nat list \<Rightarrow> nat list list \<Rightarrow> nat list
     \<Rightarrow> (nat \<times> nat list list \<times> nat list) option" where
  "collect_loop s [] i nesting current_arg args positions = None"
| "collect_loop s (t # rest) i nesting current_arg args positions =
     (if val s t = ''('' then
        collect_loop s rest (i + 1) (nesting + 1) (current_arg @ [t]) args positions
      else if val s t = '')'' then
        (if nesting - 1 = 0 then
           Some (i + 1, args @ [tokenstrip s current_arg], positions @ [i])
         else collect_loop s rest (i + 1) (nesting - 1) (current_arg @ [t]) args positions)
      else if val s t = '','' \<and> nesting = 1 then
        collect_loop s rest (i + 1) nesting [] (args @ [tokenstrip s current_arg])
          (positions @ [i + 1])
      else collect_loop s rest (i + 1) nesting (current_arg @ [t]) args positions)"

definition collect_args :: "nat list \<Rightarrow> bool \<Rightarrow> (nat \<times> nat list list \<times> nat list) M" where
  "collect_args tokenlist ignore_errors s =
     (let i = length (takeWhile (is_ws s) tokenlist) in
      if i < length tokenlist \<and> val s (tokenlist ! i) = ''('' then
        (case collect_loop s (drop (i + 1) tokenlist) (i + 1) 1 [] [] [i + 1] of
           Some r \<Rightarrow> Ok r s
         | None \<Rightarrow>
             if ignore_errors then Ok (0, [], []) s
             else bind (error_last tokenlist ''Missing ')' in macro arguments'')
                    (\<lambda>_. ret (0, [], [])) s)
      else if ignore_errors then Ok (0, [], []) s
      else bind (error_first tokenlist ''Missing '(' in macro arguments'')
             (\<lambda>_. ret (0, [], [])) s)"


section \<open>The token store\<close>

definition new_tok :: "token \<Rightarrow> nat M" where
  "new_tok t s = Ok (next_tok s) (s\<lparr>tok_at := (tok_at s)(next_tok s := t), next_tok := next_tok s + 1\<rparr>)"

text \<open>\<^verbatim>\<open>copy.copy(tok)\<close>: a new token object with the same attribute values (a shallow copy).\<close>

definition copy_tok :: "nat \<Rightarrow> nat M" where
  "copy_tok a s = new_tok (tok_at s a) s"

definition set_tok :: "nat \<Rightarrow> (token \<Rightarrow> token) \<Rightarrow> unit M" where
  "set_tok a f = modify (\<lambda>s. s\<lparr>tok_at := (tok_at s)(a := f (tok_at s a))\<rparr>)"

text \<open>\<^verbatim>\<open>if not hasattr(tok, 'expanded_from'): tok.expanded_from = []\<close>\<close>

definition ensure_ef :: "nat \<Rightarrow> unit M" where
  "ensure_ef a s =
     (case expanded_from (tok_at s a) of
        Attr r \<Rightarrow> Ok () s
      | Missing \<Rightarrow>
          Ok () (s\<lparr>ef_at := (ef_at s)(next_ef s := []),
                   next_ef := next_ef s + 1,
                   tok_at := (tok_at s)(a := (tok_at s a)\<lparr>expanded_from := Attr (next_ef s)\<rparr>)\<rparr>))"

definition get_ef :: "nat \<Rightarrow> string list M" where
  "get_ef a s =
     (case expanded_from (tok_at s a) of
        Attr r \<Rightarrow> Ok (ef_at s r) s
      | Missing \<Rightarrow> Raise AttributeError s)"

definition append_ef :: "nat \<Rightarrow> string \<Rightarrow> unit M" where
  "append_ef a name s =
     (case expanded_from (tok_at s a) of
        Attr r \<Rightarrow> Ok () (s\<lparr>ef_at := (ef_at s)(r := ef_at s r @ [name])\<rparr>)
      | Missing \<Rightarrow> Raise AttributeError s)"

text \<open>
  The body of \<^verbatim>\<open>for e in ex:\<close> in \<^verbatim>\<open>expand_macros\<close>:
  \<^verbatim>\<open>e.lineno = t.lineno\<close>, the \<^verbatim>\<open>hasattr\<close> test, \<^verbatim>\<open>e.expanded_from.append(t.value)\<close>.
\<close>

definition stamp :: "nat \<Rightarrow> nat \<Rightarrow> unit M" where
  "stamp t e =
     bind (get (\<lambda>s. lineno (tok_at s t))) (\<lambda>l.
     bind (set_tok e (\<lambda>x. x\<lparr>lineno := l\<rparr>)) (\<lambda>_.
     bind (ensure_ef e) (\<lambda>_.
     bind (get (\<lambda>s. val s t)) (\<lambda>v.
     append_ef e v))))"

text \<open>Python's slice assignment \<^verbatim>\<open>xs[i:j] = ys\<close> and slice \<^verbatim>\<open>xs[i:j]\<close> for \<open>0 \<le> i\<close>.\<close>

definition splice :: "'a list \<Rightarrow> nat \<Rightarrow> nat \<Rightarrow> 'a list \<Rightarrow> 'a list" where
  "splice xs i j ys = take i xs @ ys @ drop (max i j) xs"

definition slice :: "'a list \<Rightarrow> nat \<Rightarrow> nat \<Rightarrow> 'a list" where
  "slice xs i j = take (j - i) (drop i xs)"

section \<open>macro_prescan()\<close>

text \<open>\<^verbatim>\<open>list.index\<close> of an element that is in the list.\<close>

fun index_of :: "'a list \<Rightarrow> 'a \<Rightarrow> nat" where
  "index_of [] x = 0"
| "index_of (y # ys) x = (if x = y then 0 else Suc (index_of ys x))"

text \<open>
  The \<^verbatim>\<open>while i < len(macro.value)\<close> loop. It threads \<^verbatim>\<open>macro.value\<close> (deleted from in
  place), the three patch lists and the store (\<^verbatim>\<open>copy.copy\<close> of a stringified parameter).
  \<open>j\<close> of the source is \<open>i - 1 - k\<close> for \<open>k\<close> the number of whitespace tokens right
  before position \<open>i\<close>; \<open>j \<ge> 0\<close> is \<open>k < i\<close>.
\<close>

definition is_param :: "preprocessor \<Rightarrow> string list \<Rightarrow> nat \<Rightarrow> bool" where
  "is_param s al a = (ttype (tok_at s a) = CPP_ID \<and> val s a \<in> set al)"

function macro_prescan_loop ::
  "string list \<Rightarrow> bool \<Rightarrow> string \<Rightarrow> nat \<Rightarrow> nat list \<Rightarrow> (ptype \<times> nat \<times> nat) list
     \<Rightarrow> (nat \<times> nat) list \<Rightarrow> nat list \<Rightarrow> preprocessor
     \<Rightarrow> (nat list \<times> (ptype \<times> nat \<times> nat) list \<times> (nat \<times> nat) list \<times> nat list) \<times> preprocessor" where
  "macro_prescan_loop al vari va i v p sp vcp s =
     (if i < length v then
        if is_param s al (v ! i) then
          (let argnum = index_of al (val s (v ! i));
               k = length (takeWhile (is_ws s) (rev (take i v)))
           in if k < i \<and> val s (v ! (i - 1 - k)) = ''#'' then
                (let j = i - 1 - k;
                     c = next_tok s;
                     s' = s\<lparr>tok_at := (tok_at s)(c := (tok_at s (v ! i))\<lparr>ttype := CPP_STRING\<rparr>),
                             next_tok := c + 1\<rparr>
                 in macro_prescan_loop al vari va j (take j v @ c # drop (i + 1) v) p
                      (sp @ [(argnum, j)]) vcp s')
              else if 0 < i \<and> val s (v ! (i - 1)) = ''##'' then
                macro_prescan_loop al vari va i (take (i - 1) v @ drop i v)
                  (p @ [(PC, argnum, i - 1)]) sp vcp s
              else if i + 1 < length v \<and> val s (v ! (i + 1)) = ''##'' then
                macro_prescan_loop al vari va (i + 1) v (p @ [(PC, argnum, i)]) sp vcp s
              else macro_prescan_loop al vari va (i + 1) v (p @ [(PE, argnum, i)]) sp vcp s)
        else if val s (v ! i) = ''##'' then
          (if vari \<and> 0 < i \<and> val s (v ! (i - 1)) = '','' \<and> i + 1 < length v
                \<and> ttype (tok_at s (v ! (i + 1))) = CPP_ID \<and> val s (v ! (i + 1)) = va then
             macro_prescan_loop al vari va (i + 1) v p sp (vcp @ [i - 1]) s
           else macro_prescan_loop al vari va (i + 1) v p sp vcp s)
        else macro_prescan_loop al vari va (i + 1) v p sp vcp s
      else ((v, p, sp, vcp), s))"
  by pat_completeness auto
termination
  by (relation "measure (\<lambda>(al, vari, va, i, v, p, sp, vcp, s).
        2 * (length v - i) + (if i < length v \<and> is_param s al (v ! i) then 1 else 0))")
     (auto simp: is_param_def val_def nth_append)

declare macro_prescan_loop.simps [simp del]

text \<open>\<^verbatim>\<open>macro.patch.sort(key=lambda x: x[2],reverse=True)\<close>: stable, descending.\<close>

definition sort_patch :: "(ptype \<times> nat \<times> nat) list \<Rightarrow> (ptype \<times> nat \<times> nat) list" where
  "sort_patch p = rev (sort_key (\<lambda>x. snd (snd x)) (rev p))"

definition macro_prescan :: "macro \<Rightarrow> preprocessor \<Rightarrow> macro \<times> preprocessor" where
  "macro_prescan m s =
     (case macro_prescan_loop (case arglist m of None \<Rightarrow> [] | Some al \<Rightarrow> al) (variadic m) (vararg m)
             0 (mvalue m) [] [] [] s of
        ((v, p, sp, vcp), s') \<Rightarrow>
          (m\<lparr>mvalue := v, patch := sort_patch p, str_patch := sp, var_comma_patch := vcp\<rparr>, s'))"


section \<open>macro_expand_args()\<close>

text \<open>
  Stringification of one argument. The source copies the argument \<^emph>\<open>list\<close>
  (\<^verbatim>\<open>copy.copy(args[argnum])\<close>), so \<^verbatim>\<open>tokens[j].value = ' '\<close> writes to the argument's own
  token objects, while \<^verbatim>\<open>del tokens[j+1]\<close> only shortens the copy.
\<close>

fun collapse_ws :: "preprocessor \<Rightarrow> nat list \<Rightarrow> nat list" where
  "collapse_ws s (x # y # r) =
     (if is_ws s x \<and> is_ws s y then collapse_ws s (x # r) else x # collapse_ws s (y # r))"
| "collapse_ws s r = r"

definition escape :: "string \<Rightarrow> string" where
  "escape str = concat (map (\<lambda>c. if c = CHR 0x5C then [CHR 0x5C, CHR 0x5C]
                                  else if c = CHR 0x22 then [CHR 0x5C, CHR 0x22] else [c]) str)"

definition stringify :: "nat list \<Rightarrow> string M" where
  "stringify arg =
     bind (forM arg (\<lambda>a. bind (get (\<lambda>s. is_ws s a)) (\<lambda>w.
             if w then set_tok a (\<lambda>x. x\<lparr>tvalue := '' ''\<rparr>) else ret ()))) (\<lambda>_.
     get (\<lambda>s. [CHR 0x22] @ escape (concat (map (val s) (collapse_ws s arg))) @ [CHR 0x22]))"

text \<open>
  \<^verbatim>\<open>for argnum, i in macro.str_patch\<close>; \<^verbatim>\<open>str_expansion\<close> is the memo dictionary.
  \<^verbatim>\<open>rep\<close> holds addresses or Python's \<^verbatim>\<open>None\<close> (the comma patch below).
\<close>

fun apply_str_patch ::
  "(nat \<times> nat) list \<Rightarrow> nat list list \<Rightarrow> (nat \<times> string) list \<Rightarrow> nat option list
     \<Rightarrow> nat option list M" where
  "apply_str_patch [] args str_expansion rep = ret rep"
| "apply_str_patch ((argnum, i) # ps) args str_expansion rep =
     bind (case map_of str_expansion argnum of
             Some str \<Rightarrow> ret str_expansion
           | None \<Rightarrow>
               if argnum < length args then
                 bind (stringify (args ! argnum)) (\<lambda>str. ret ((argnum, str) # str_expansion))
               else raise IndexError) (\<lambda>str_expansion'.
     if i < length rep then
       (case rep ! i of
          Some a \<Rightarrow>
            bind (copy_tok a) (\<lambda>c.
            bind (set_tok c (\<lambda>x. x\<lparr>tvalue := the (map_of str_expansion' argnum)\<rparr>)) (\<lambda>_.
            apply_str_patch ps args str_expansion' (rep[i := Some c])))
        | None \<Rightarrow> raise AttributeError)
     else raise IndexError)"

text \<open>\<^verbatim>\<open>for i in macro.var_comma_patch: rep[i] = None\<close>\<close>

fun apply_comma_patch :: "nat list \<Rightarrow> nat option list \<Rightarrow> nat option list M" where
  "apply_comma_patch [] rep = ret rep"
| "apply_comma_patch (i # is) rep =
     (if i < length rep then apply_comma_patch is (rep[i := None]) else raise IndexError)"

text \<open>
  \<^verbatim>\<open>for ptype, argnum, i in macro.patch\<close>. \<^verbatim>\<open>expand_macros\<close> works on the list it is given
  and returns that same list object, so after \<^verbatim>\<open>expanded[argnum] = self.expand_macros(args[argnum])\<close>
  the entry \<^verbatim>\<open>args[argnum]\<close> is the expanded list too: \<open>args\<close> is threaded, and
  \<open>expanded\<close> is the set of keys of the dictionary. \<open>expand\<close> is
  \<^verbatim>\<open>self.expand_macros\<close> with its default \<^verbatim>\<open>expanding_from=[]\<close>.
\<close>

fun apply_patch ::
  "(nat list \<Rightarrow> nat list M) \<Rightarrow> (ptype \<times> nat \<times> nat) list \<Rightarrow> nat list list \<Rightarrow> nat list
     \<Rightarrow> nat option list \<Rightarrow> nat option list M" where
  "apply_patch expand [] args expanded rep = ret rep"
| "apply_patch expand ((PC, argnum, i) # ps) args expanded rep =
     (if argnum < length args then
        apply_patch expand ps args expanded (splice rep i (i + 1) (map Some (args ! argnum)))
      else raise IndexError)"
| "apply_patch expand ((PE, argnum, i) # ps) args expanded rep =
     (if argnum \<in> set expanded then
        apply_patch expand ps args expanded (splice rep i (i + 1) (map Some (args ! argnum)))
      else if argnum < length args then
        bind (expand (args ! argnum)) (\<lambda>ex.
        apply_patch expand ps (args[argnum := ex]) (argnum # expanded)
          (splice rep i (i + 1) (map Some ex)))
      else raise IndexError)"

text \<open>\<^verbatim>\<open>[_i for _i in rep if _i]\<close>: a token object is true, \<^verbatim>\<open>None\<close> is false.\<close>

definition present :: "nat option list \<Rightarrow> nat list" where
  "present rep = concat (map (\<lambda>x. case x of None \<Rightarrow> [] | Some a \<Rightarrow> [a]) rep)"

text \<open>
  Without a comma patch no entry of \<open>rep\<close> is \<^verbatim>\<open>None\<close>, so \<open>present\<close> is then the
  list as it is.
\<close>

definition macro_expand_args ::
  "(nat list \<Rightarrow> nat list M) \<Rightarrow> macro \<Rightarrow> nat list list \<Rightarrow> nat list M" where
  "macro_expand_args expand m args =
     bind (mapM copy_tok (mvalue m)) (\<lambda>rep.
     bind (apply_str_patch (str_patch m) args [] (map Some rep)) (\<lambda>rep.
     bind (if variadic m then
             (if args = [] then raise IndexError
              else if last args = [] then apply_comma_patch (var_comma_patch m) rep
              else ret rep)
           else ret rep) (\<lambda>rep.
     bind (apply_patch expand (patch m) args [] rep) (\<lambda>rep.
     ret (present rep)))))"

section \<open>expand_macros()\<close>

text \<open>
  The first argument bounds the number of loop iterations and nested calls; with none
  left there is no result.
\<close>

definition arity_msg :: "string \<Rightarrow> nat \<Rightarrow> nat \<Rightarrow> string" where
  "arity_msg name n k =
     ''Macro '' @ name @ '' requires '' @ show_nat n @ '' arguments but was passed '' @ show_nat k"

definition variadic_msg :: "string \<Rightarrow> nat \<Rightarrow> string" where
  "variadic_msg name n =
     ''Macro '' @ name @ '' must have at least '' @ show_int (int n - 1)
       @ (if n > 2 then '' arguments'' else '' argument'')"

text \<open>The argument lists handed to \<^verbatim>\<open>macro_expand_args\<close> once the arity is accepted.\<close>

definition adjust_args ::
  "macro \<Rightarrow> string list \<Rightarrow> nat list \<Rightarrow> nat \<Rightarrow> nat \<Rightarrow> nat list list \<Rightarrow> nat list \<Rightarrow> nat list list" where
  "adjust_args m al tokens j tokcount args positions =
     (if variadic m then
        (if int (length args) = int (length al) - 1 then args @ [[]]
         else take (length al)
                (args[length al - 1 :=
                   slice tokens (j + positions ! (length al - 1)) (j + tokcount - 1)]))
      else args @ replicate (length al - length args) [])"

fun expand_macros :: "nat \<Rightarrow> nat list \<Rightarrow> string list \<Rightarrow> nat list M"
  and expand_loop :: "nat \<Rightarrow> string list \<Rightarrow> nat \<Rightarrow> nat list \<Rightarrow> nat list M" where
  "expand_macros 0 tokens expanding_from = (\<lambda>s. OutOfFuel)"
| "expand_macros (Suc n) tokens expanding_from =
     bind (forM tokens ensure_ef) (\<lambda>_. expand_loop n expanding_from 0 tokens)"
| "expand_loop 0 expanding_from i tokens = (\<lambda>s. OutOfFuel)"
| "expand_loop (Suc n) expanding_from i tokens =
     (if i < length tokens then
        (let t = tokens ! i in
         bind (get (\<lambda>s. tok_at s t)) (\<lambda>tk.
         if ttype tk = CPP_ID then
           bind (get (\<lambda>s. macros s (tvalue tk))) (\<lambda>mo.
           bind (case mo of
                   None \<Rightarrow> ret False
                 | Some _ \<Rightarrow>
                     bind (get_ef t) (\<lambda>ef.
                     ret (tvalue tk \<notin> set ef \<and> tvalue tk \<notin> set expanding_from))) (\<lambda>go.
           if go then
             (case mo of
                None \<Rightarrow> ret tokens
              | Some m \<Rightarrow>
                 (case arglist m of
                    None \<Rightarrow>
                      bind (mapM copy_tok (mvalue m)) (\<lambda>rep.
                      bind (expand_macros n rep (expanding_from @ [tvalue tk])) (\<lambda>ex.
                      bind (forM ex (stamp t)) (\<lambda>_.
                      expand_loop n expanding_from i (splice tokens i (i + 1) ex))))
                  | Some al \<Rightarrow>
                      bind (get (\<lambda>s. i + 1 + length (takeWhile (is_ws s) (drop (i + 1) tokens)))) (\<lambda>j.
                      bind (get (\<lambda>s. j = length tokens \<or> val s (tokens ! j) \<noteq> ''('')) (\<lambda>no_call.
                      if no_call then expand_loop n expanding_from j tokens
                      else
                        bind (collect_args (drop j tokens) True) (\<lambda>(tokcount, args, positions).
                        if tokcount = 0 then ret tokens
                        else if \<not> variadic m \<and> (args \<noteq> [[]] \<or> length al > 1)
                                \<and> length args \<noteq> length al then
                          bind (error_tok t (arity_msg (tvalue tk) (length al) (length args))) (\<lambda>_.
                          expand_loop n expanding_from (j + tokcount) tokens)
                        else if variadic m \<and> int (length args) < int (length al) - 1 then
                          bind (error_tok t (variadic_msg (tvalue tk) (length al))) (\<lambda>_.
                          expand_loop n expanding_from (j + tokcount) tokens)
                        else
                          bind (macro_expand_args (\<lambda>ts. expand_macros n ts []) m
                                  (adjust_args m al tokens j tokcount args positions)) (\<lambda>rep.
                          bind (expand_macros n rep (expanding_from @ [tvalue tk])) (\<lambda>ex.
                          bind (forM ex (stamp t)) (\<lambda>_.
                          expand_loop n expanding_from i (splice tokens i (j + tokcount) ex)))))))))
           else if tvalue tk = ''__LINE__'' then
             bind (set_tok t (\<lambda>x. x\<lparr>ttype := CPP_INTEGER, tvalue := show_int (lineno x)\<rparr>)) (\<lambda>_.
             expand_loop n expanding_from (i + 1) tokens)
           else expand_loop n expanding_from (i + 1) tokens))
         else expand_loop n expanding_from (i + 1) tokens))
      else ret tokens)"


section \<open>The host's eval\<close>

text \<open>
  \<^verbatim>\<open>evalexpr\<close> hands a text to Python's builtin \<^verbatim>\<open>eval\<close>, which is no code of the
  repository: the model of \<^verbatim>\<open>evalexpr\<close> below takes it as a parameter \<open>ev\<close>, with
  \<open>None\<close> for any exception that \<^verbatim>\<open>except Exception\<close> catches and the value as an integer
  otherwise (Python's \<^verbatim>\<open>True\<close> and \<^verbatim>\<open>False\<close> are the integers 1 and 0).

  \<open>py_eval\<close> is one such evaluator, for the texts made of integer literals (decimal or
  hexadecimal, no suffix), parentheses and the operators \<^verbatim>\<open>or and not\<close>,
  \<^verbatim>\<open>< > <= >= == !=\<close> (chained as Python chains them), \<^verbatim>\<open>| ^ & << >> + - * // %\<close> and
  the unary \<^verbatim>\<open>+ - ~\<close>, with Python's grammar and precedence. On every other text it
  answers \<open>None\<close>; that is Python's answer where the text is no expression at all
  (a syntax error), which is the only use the theorems below make of it.
\<close>

datatype pyexpr =
  Num int | BoolOr pyexpr pyexpr | BoolAnd pyexpr pyexpr | BoolNot pyexpr
  | Compare pyexpr "(string \<times> pyexpr) list" | BinOp string pyexpr pyexpr | UnOp string pyexpr

datatype ptok = PNum int | POp string

definition is_digit :: "char \<Rightarrow> bool" where
  "is_digit c = (c \<in> set ''0123456789'')"

definition is_hexdigit :: "char \<Rightarrow> bool" where
  "is_hexdigit c = (c \<in> set ''0123456789abcdefABCDEF'')"

definition is_idchar :: "char \<Rightarrow> bool" where
  "is_idchar c = (c \<in> set ''abcdefghijklmnopqrstuvwxyzABCDEFGHIJKLMNOPQRSTUVWXYZ_0123456789'')"

definition hexdigit_val :: "char \<Rightarrow> int" where
  "hexdigit_val c =
     (if is_digit c then int (index_of ''0123456789'' c)
      else if c \<in> set ''abcdef'' then 10 + int (index_of ''abcdef'' c)
      else 10 + int (index_of ''ABCDEF'' c))"

definition numeral_val :: "int \<Rightarrow> string \<Rightarrow> int" where
  "numeral_val base ds = foldl (\<lambda>a c. base * a + hexdigit_val c) 0 ds"

function py_lex :: "string \<Rightarrow> ptok list option" where
  "py_lex [] = Some []"
| "py_lex (c # cs) =
     (if c = CHR '' '' then py_lex cs
      else if c = CHR ''0'' \<and> cs \<noteq> [] \<and> hd cs \<in> set ''xX'' then
        (let hs = takeWhile is_hexdigit (tl cs); rest = dropWhile is_hexdigit (tl cs)
         in if hs = [] \<or> (rest \<noteq> [] \<and> is_idchar (hd rest)) then None
            else map_option (Cons (PNum (numeral_val 16 hs))) (py_lex rest))
      else if is_digit c then
        (let ds = c # takeWhile is_digit cs; rest = dropWhile is_digit cs
         in if rest \<noteq> [] \<and> (is_idchar (hd rest) \<or> hd rest = CHR ''.'') then None
            else if c = CHR ''0'' \<and> (\<exists>d \<in> set ds. d \<noteq> CHR ''0'') then None
            else map_option (Cons (PNum (numeral_val 10 ds))) (py_lex rest))
      else if is_idchar c then
        (let w = c # takeWhile is_idchar cs
         in if w \<in> set [''or'', ''and'', ''not''] then
              map_option (Cons (POp w)) (py_lex (dropWhile is_idchar cs))
            else None)
      else if cs \<noteq> [] \<and> [c, hd cs] \<in> set [''<<'', ''>>'', ''<='', ''>='', ''=='', ''!='', ''//''] then
        map_option (Cons (POp [c, hd cs])) (py_lex (tl cs))
      else if c \<in> set ''+-*%<>&|^~()'' then map_option (Cons (POp [c])) (py_lex cs)
      else None)"
  by pat_completeness auto
termination
  by (relation "measure length")
     (auto simp: less_Suc_eq_le length_dropWhile_le le_trans [OF length_dropWhile_le] le_SucI)

declare py_lex.simps [simp del]

text \<open>
  Precedence levels, loosest first: 0 \<^verbatim>\<open>or\<close>, 1 \<^verbatim>\<open>and\<close>, 2 \<^verbatim>\<open>not\<close>, 3 comparisons,
  4 \<^verbatim>\<open>|\<close>, 5 \<^verbatim>\<open>^\<close>, 6 \<^verbatim>\<open>&\<close>, 7 shifts, 8 sums, 9 products, 10 unary operators, 11 atoms.
\<close>

definition ops_at :: "nat \<Rightarrow> string list" where
  "ops_at lvl =
     (if lvl = 0 then [''or''] else if lvl = 1 then [''and''] else if lvl = 4 then [''|'']
      else if lvl = 5 then [''^''] else if lvl = 6 then [''&''] else if lvl = 7 then [''<<'', ''>>'']
      else if lvl = 8 then [''+'', ''-''] else if lvl = 9 then [''*'', ''//'', ''%''] else [])"

definition mk_bin :: "nat \<Rightarrow> string \<Rightarrow> pyexpr \<Rightarrow> pyexpr \<Rightarrow> pyexpr" where
  "mk_bin lvl op a b = (if lvl = 0 then BoolOr a b else if lvl = 1 then BoolAnd a b else BinOp op a b)"

fun py_parse :: "nat \<Rightarrow> nat \<Rightarrow> ptok list \<Rightarrow> (pyexpr \<times> ptok list) option"
  and py_bin :: "nat \<Rightarrow> nat \<Rightarrow> pyexpr \<Rightarrow> ptok list \<Rightarrow> (pyexpr \<times> ptok list) option"
  and py_cmp :: "nat \<Rightarrow> pyexpr \<Rightarrow> (string \<times> pyexpr) list \<Rightarrow> ptok list \<Rightarrow> (pyexpr \<times> ptok list) option" where
  "py_parse 0 lvl ts = None"
| "py_parse (Suc n) lvl ts =
     (if lvl = 2 then
        (case ts of
           POp op # r \<Rightarrow>
             if op = ''not'' then map_option (\<lambda>(e, r'). (BoolNot e, r')) (py_parse n 2 r)
             else py_parse n 3 ts
         | _ \<Rightarrow> py_parse n 3 ts)
      else if lvl = 3 then
        (case py_parse n 4 ts of None \<Rightarrow> None | Some (a, r) \<Rightarrow> py_cmp n a [] r)
      else if lvl = 10 then
        (case ts of
           POp op # r \<Rightarrow>
             if op \<in> set [''+'', ''-'', ''~''] then
               map_option (\<lambda>(e, r'). (UnOp op e, r')) (py_parse n 10 r)
             else py_parse n 11 ts
         | _ \<Rightarrow> py_parse n 11 ts)
      else if lvl \<ge> 11 then
        (case ts of
           PNum v # r \<Rightarrow> Some (Num v, r)
         | POp op # r \<Rightarrow>
             if op = ''('' then
               (case py_parse n 0 r of
                  Some (e, POp cl # r') \<Rightarrow> if cl = '')'' then Some (e, r') else None
                | _ \<Rightarrow> None)
             else None
         | _ \<Rightarrow> None)
      else (case py_parse n (lvl + 1) ts of None \<Rightarrow> None | Some (a, r) \<Rightarrow> py_bin n lvl a r))"
| "py_bin 0 lvl a ts = None"
| "py_bin (Suc n) lvl a ts =
     (case ts of
        POp op # r \<Rightarrow>
          if op \<in> set (ops_at lvl) then
            (case py_parse n (lvl + 1) r of
               None \<Rightarrow> None
             | Some (b, r') \<Rightarrow> py_bin n lvl (mk_bin lvl op a b) r')
          else Some (a, ts)
      | _ \<Rightarrow> Some (a, ts))"
| "py_cmp 0 a chain ts = None"
| "py_cmp (Suc n) a chain ts =
     (case ts of
        POp op # r \<Rightarrow>
          if op \<in> set [''<'', ''>'', ''=='', ''>='', ''<='', ''!=''] then
            (case py_parse n 4 r of
               None \<Rightarrow> None
             | Some (b, r') \<Rightarrow> py_cmp n a (chain @ [(op, b)]) r')
          else Some (if chain = [] then a else Compare a chain, ts)
      | _ \<Rightarrow> Some (if chain = [] then a else Compare a chain, ts))"

definition py_compare :: "string \<Rightarrow> int \<Rightarrow> int \<Rightarrow> bool" where
  "py_compare op a b =
     (if op = ''<'' then a < b else if op = ''>'' then a > b else if op = ''=='' then a = b
      else if op = ''>='' then a \<ge> b else if op = ''<='' then a \<le> b else a \<noteq> b)"

definition py_binop :: "string \<Rightarrow> int \<Rightarrow> int \<Rightarrow> int option" where
  "py_binop op a b =
     (if op = ''|'' then Some (a OR b) else if op = ''^'' then Some (a XOR b)
      else if op = ''&'' then Some (a AND b)
      else if op = ''<<'' then (if b < 0 then None else Some (push_bit (nat b) a))
      else if op = ''>>'' then (if b < 0 then None else Some (drop_bit (nat b) a))
      else if op = ''+'' then Some (a + b) else if op = ''-'' then Some (a - b)
      else if op = ''*'' then Some (a * b)
      else if b = 0 then None
      else if op = ''//'' then Some (a div b) else Some (a mod b))"

fun py_value :: "pyexpr \<Rightarrow> int option"
  and py_chain :: "int \<Rightarrow> (string \<times> pyexpr) list \<Rightarrow> int option" where
  "py_value (Num v) = Some v"
| "py_value (BoolOr a b) =
     (case py_value a of None \<Rightarrow> None | Some x \<Rightarrow> if x \<noteq> 0 then Some x else py_value b)"
| "py_value (BoolAnd a b) =
     (case py_value a of None \<Rightarrow> None | Some x \<Rightarrow> if x = 0 then Some x else py_value b)"
| "py_value (BoolNot a) = map_option (\<lambda>x. if x = 0 then 1 else 0) (py_value a)"
| "py_value (Compare a chain) = (case py_value a of None \<Rightarrow> None | Some x \<Rightarrow> py_chain x chain)"
| "py_value (BinOp op a b) =
     (case py_value a of
        None \<Rightarrow> None
      | Some x \<Rightarrow> (case py_value b of None \<Rightarrow> None | Some y \<Rightarrow> py_binop op x y))"
| "py_value (UnOp op a) =
     map_option (\<lambda>x. if op = ''-'' then - x else if op = ''~'' then NOT x else x) (py_value a)"
| "py_chain x [] = Some 1"
| "py_chain x ((op, b) # chain) =
     (case py_value b of
        None \<Rightarrow> None
      | Some y \<Rightarrow> if py_compare op x y then py_chain y chain else Some 0)"

definition py_eval :: "string \<Rightarrow> int option" where
  "py_eval expr =
     (case py_lex expr of
        None \<Rightarrow> None
      | Some ts \<Rightarrow>
          (case py_parse (20 * (length ts + 1)) 0 ts of
             Some (e, []) \<Rightarrow> py_value e
           | _ \<Rightarrow> None))"

section \<open>evalexpr()\<close>

text \<open>Python's \<^verbatim>\<open>str.replace(old, new)\<close> for a non-empty \<open>old\<close>.\<close>

function replace_str :: "string \<Rightarrow> string \<Rightarrow> string \<Rightarrow> string" where
  "replace_str old new [] = []"
| "replace_str old new (c # cs) =
     (if old \<noteq> [] \<and> prefix old (c # cs) then new @ replace_str old new (drop (length old) (c # cs))
      else c # replace_str old new cs)"
  by pat_completeness auto
termination
  by (relation "measure (\<lambda>(old, new, str). length str)") (auto simp: Suc_diff_le)

declare replace_str.simps [simp del]

text \<open>
  The inner \<^verbatim>\<open>while j < len(tokens)\<close> of the \<^verbatim>\<open>defined\<close> operator; the list is
  \<^verbatim>\<open>tokens[j:]\<close>, \<open>ti\<close> is \<^verbatim>\<open>tokens[i]\<close>. It returns \<open>j\<close> and \<^verbatim>\<open>result\<close>.
\<close>

fun defined_loop :: "nat \<Rightarrow> nat list \<Rightarrow> nat \<Rightarrow> bool \<Rightarrow> string \<Rightarrow> (nat \<times> string) M" where
  "defined_loop ti [] j needparen result = ret (j, result)"
| "defined_loop ti (t # rest) j needparen result =
     bind (get (\<lambda>s. tok_at s t)) (\<lambda>tk.
     if ttype tk = CPP_WS then defined_loop ti rest (j + 1) needparen result
     else if ttype tk = CPP_ID then
       bind (get (\<lambda>s. macros s (tvalue tk))) (\<lambda>mo.
       let result' = (if mo \<noteq> None then ''1L'' else ''0L'')
       in if \<not> needparen then ret (j, result')
          else defined_loop ti rest (j + 1) needparen result')
     else if tvalue tk = ''('' then defined_loop ti rest (j + 1) True result
     else if tvalue tk = '')'' then ret (j, result)
     else bind (error_tok ti ''Malformed defined()'') (\<lambda>_.
          defined_loop ti rest (j + 1) needparen result))"

text \<open>
  The outer loop. \<^verbatim>\<open>self.t_INTEGER_TYPE\<close> is the type of the value of the integer token the
  lexer was probed with, which is \<^verbatim>\<open>str\<close>: the rule \<^verbatim>\<open>CPP_INTEGER\<close> converts nothing.
  The bound \<open>k\<close> is the number of iterations left (at most the length of the list).
\<close>

fun defined_pass :: "nat \<Rightarrow> nat \<Rightarrow> nat list \<Rightarrow> nat list M" where
  "defined_pass 0 i tokens = ret tokens"
| "defined_pass (Suc k) i tokens =
     (if i < length tokens then
        bind (get (\<lambda>s. tok_at s (tokens ! i))) (\<lambda>tk.
        if ttype tk = CPP_ID \<and> tvalue tk = ''defined'' then
          bind (defined_loop (tokens ! i) (drop (i + 1) tokens) (i + 1) False ''0L'') (\<lambda>(j, result).
          bind (set_tok (tokens ! i) (\<lambda>x. x\<lparr>ttype := CPP_INTEGER, tvalue := result\<rparr>)) (\<lambda>_.
          defined_pass k (i + 1) (take (i + 1) tokens @ drop (j + 1) tokens)))
        else defined_pass k (i + 1) tokens)
      else ret tokens)"

text \<open>
  \<^verbatim>\<open>while tokens[i].value[-1] not in "0123456789abcdefABCDEF"\<close>: \<open>None\<close> is the
  \<^verbatim>\<open>IndexError\<close> of \<^verbatim>\<open>[-1]\<close> on the string that has become empty.
\<close>

definition strip_suffix :: "string \<Rightarrow> string option" where
  "strip_suffix v =
     (let r = dropWhile (\<lambda>c. \<not> is_hexdigit c) (rev v) in if r = [] then None else Some (rev r))"

definition integer_pass :: "nat \<Rightarrow> nat M" where
  "integer_pass t =
     bind (get (\<lambda>s. ttype (tok_at s t))) (\<lambda>ty.
     if ty = CPP_ID then
       bind (copy_tok t) (\<lambda>c.
       bind (set_tok c (\<lambda>x. x\<lparr>ttype := CPP_INTEGER, tvalue := ''0L''\<rparr>)) (\<lambda>_. ret c))
     else if ty = CPP_INTEGER then
       bind (copy_tok t) (\<lambda>c.
       bind (get (\<lambda>s. strip_suffix (val s c))) (\<lambda>v.
       case v of
         None \<Rightarrow> bind (set_tok c (\<lambda>x. x\<lparr>tvalue := []\<rparr>)) (\<lambda>_. raise IndexError)
       | Some v' \<Rightarrow> bind (set_tok c (\<lambda>x. x\<lparr>tvalue := v'\<rparr>)) (\<lambda>_. ret c)))
     else ret t)"

definition rewrite_expr :: "string \<Rightarrow> string" where
  "rewrite_expr expr =
     replace_str ''!'' '' not '' (replace_str ''||'' '' or '' (replace_str ''&&'' '' and '' expr))"

text \<open>
  \<open>xf\<close> bounds \<^verbatim>\<open>expand_macros\<close>, \<open>ev\<close> is the host's \<^verbatim>\<open>eval\<close>. In the handler,
  \<^verbatim>\<open>tokens[0]\<close> is evaluated before \<^verbatim>\<open>self.error\<close> is called.
\<close>

definition evalexpr :: "nat \<Rightarrow> (string \<Rightarrow> int option) \<Rightarrow> nat list \<Rightarrow> int M" where
  "evalexpr xf ev tokens =
     bind (defined_pass (length tokens) 0 tokens) (\<lambda>tokens.
     bind (expand_macros xf tokens []) (\<lambda>tokens.
     bind (mapM integer_pass tokens) (\<lambda>tokens.
     bind (get (\<lambda>s. rewrite_expr (concat (map (val s) tokens)))) (\<lambda>expr.
     case ev expr of
       Some result \<Rightarrow> ret result
     | None \<Rightarrow> bind (error_first tokens ''Couldn't evaluate expression'') (\<lambda>_. ret 0)))))"

section \<open>define() and undef()\<close>

text \<open>
  The loop \<^verbatim>\<open>for a in args\<close> over the collected parameters. \<open>done\<close> are the entries
  already visited (an entry is a list object that \<^verbatim>\<open>del a[1:]\<close> shortens), \<open>n\<close> is
  \<^verbatim>\<open>len(args)\<close>. \<open>None\<close> is the loop left by \<^verbatim>\<open>break\<close>, which skips the \<^verbatim>\<open>else\<close>
  clause. In \<^verbatim>\<open>self.error(a.source,a.lineno,"Invalid macro argument")\<close> the object \<^verbatim>\<open>a\<close> is
  the list, which has no attribute \<^verbatim>\<open>source\<close>.
\<close>

fun define_params ::
  "nat \<Rightarrow> nat \<Rightarrow> nat list list \<Rightarrow> bool \<Rightarrow> nat list list \<Rightarrow> (bool \<times> nat list list) option M" where
  "define_params name n [] vari done = ret (Some (vari, done))"
| "define_params name n (a # rest) vari done =
     (if vari then
        bind (error_tok name ''No more arguments may follow a variadic argument'') (\<lambda>_. ret None)
      else
        bind (get (\<lambda>s. concat (map (val s) a))) (\<lambda>astr.
        if astr = ''...'' then
          bind (set_tok (hd a) (\<lambda>x. x\<lparr>ttype := CPP_ID, tvalue := ''__VA_ARGS__''\<rparr>)) (\<lambda>_.
          define_params name n rest True (done @ [[hd a]]))
        else
          bind (get (\<lambda>s. suffix ''...'' astr \<and> ttype (tok_at s (hd a)) = CPP_ID)) (\<lambda>named.
          if named then
            bind (get (\<lambda>s. val s (hd a))) (\<lambda>v.
            bind (if suffix ''...'' v
                  then set_tok (hd a) (\<lambda>x. x\<lparr>tvalue := take (length v - 3) v\<rparr>)
                  else ret ()) (\<lambda>_.
            define_params name n rest True (done @ [[hd a]])))
          else if length a = 0 \<and> n = 1 then define_params name n rest vari (done @ [a])
          else if a = [] then raise IndexError
          else
            bind (get (\<lambda>s. length a > 1 \<or> ttype (tok_at s (hd a)) \<noteq> CPP_ID)) (\<lambda>bad.
            if bad then raise AttributeError
            else define_params name n rest vari (done @ [a])))))"

text \<open>Whitespace next to \<^verbatim>\<open>##\<close> in the replacement list (the \<^verbatim>\<open>while i < len(mvalue)\<close> loop).\<close>

fun strip_paste_ws :: "preprocessor \<Rightarrow> nat list \<Rightarrow> nat list" where
  "strip_paste_ws s (x # y # r) =
     (if is_ws s x \<and> val s y = ''##'' then strip_paste_ws s (y # r)
      else if val s x = ''##'' \<and> is_ws s y then x # strip_paste_ws s r
      else x # strip_paste_ws s (y # r))"
| "strip_paste_ws s r = r"

text \<open>\<^verbatim>\<open>Macro(name, value, arglist, variadic)\<close>; the patch lists are set by the prescan.\<close>

definition Macro :: "string \<Rightarrow> nat list \<Rightarrow> string list option \<Rightarrow> bool \<Rightarrow> macro M" where
  "Macro name v al vari =
     (if vari \<and> (case al of None \<Rightarrow> True | Some l \<Rightarrow> l = []) then raise IndexError
      else ret \<lparr>mname = name, mvalue = v, arglist = al, variadic = vari,
                vararg = (if vari then last (the al) else []),
                patch = [], str_patch = [], var_comma_patch = []\<rparr>)"

definition store_macro :: "macro \<Rightarrow> unit M" where
  "store_macro m = modify (\<lambda>s. s\<lparr>macros := (macros s)(mname m \<mapsto> m)\<rparr>)"

text \<open>\<^verbatim>\<open>define\<close> of a token list (a text is tokenized first, see \<open>define_text\<close>).\<close>

definition define_tokens :: "nat list \<Rightarrow> unit M" where
  "define_tokens linetok =
     (case linetok of
        [] \<Rightarrow> raise IndexError
      | name # others \<Rightarrow>
          bind (get (\<lambda>s. val s name)) (\<lambda>nm.
          case others of
            [] \<Rightarrow> bind (Macro nm [] None False) store_macro
          | mtype # _ \<Rightarrow>
              bind (get (\<lambda>s. tok_at s mtype)) (\<lambda>mt.
              if ttype mt = CPP_WS then
                bind (get (\<lambda>s. tokenstrip s (drop 2 linetok))) (\<lambda>v.
                bind (Macro nm v None False) store_macro)
              else if tvalue mt = ''('' then
                bind (collect_args (drop 1 linetok) False) (\<lambda>(tokcount, args, positions).
                bind (define_params name (length args) args False []) (\<lambda>r.
                case r of
                  None \<Rightarrow> ret ()
                | Some (vari, args') \<Rightarrow>
                    bind (get (\<lambda>s. strip_paste_ws s (tokenstrip s (drop (1 + tokcount) linetok)))) (\<lambda>mvalue.
                    bind (if args' \<noteq> [[]] then
                            mapM (\<lambda>x. if x = [] then raise IndexError else get (\<lambda>s. val s (hd x))) args'
                          else ret []) (\<lambda>al.
                    bind (Macro nm mvalue (Some al) vari) (\<lambda>m.
                    bind (\<lambda>s. case macro_prescan m s of (m', s') \<Rightarrow> Ok m' s') store_macro)))))
              else error_tok name ''Bad macro definition'')))"

text \<open>
  \<^verbatim>\<open>define\<close> of a text of the form \<^verbatim>\<open>NAME "STRING"\<close>, as the engine itself calls it for
  \<^verbatim>\<open>__FILE__\<close>, \<^verbatim>\<open>__DATE__\<close> and \<^verbatim>\<open>__TIME__\<close>: \<^verbatim>\<open>tokenize\<close> gives an identifier, a blank
  and a string token (for a string without quote, backslash or newline), none of which
  has a \<^verbatim>\<open>source\<close>. Their line is the lexer's, 2 after the probe of \<^verbatim>\<open>lexprobe\<close>.
\<close>

definition lexed :: "tok_type \<Rightarrow> string \<Rightarrow> int \<Rightarrow> token" where
  "lexed ty v l = \<lparr>ttype = ty, tvalue = v, lineno = l, source = Missing, expanded_from = Missing\<rparr>"

definition define_text :: "string \<Rightarrow> string \<Rightarrow> unit M" where
  "define_text name str =
     bind (mapM new_tok [lexed CPP_ID name 2, lexed CPP_WS '' '' 2,
                         lexed CPP_STRING ([CHR 0x22] @ str @ [CHR 0x22]) 2]) define_tokens"

definition undef :: "nat list \<Rightarrow> unit M" where
  "undef tokens =
     (case tokens of
        [] \<Rightarrow> raise IndexError
      | a # _ \<Rightarrow> modify (\<lambda>s. s\<lparr>macros := (macros s)(val s a := None)\<rparr>))"

section \<open>parsegen() and include()\<close>

text \<open>
  The lexer is PLY's, outside the repository: the input of \<^verbatim>\<open>parsegen\<close> is modelled as
  the token sequence the lexer produces for the text (after the trigraph replacement and
  the line splicing of \<^verbatim>\<open>group_lines\<close>), and a file system maps a file name to the
  token sequence of the file's text, \<open>None\<close> where \<^verbatim>\<open>open\<close> raises \<^verbatim>\<open>IOError\<close>.
  \<^verbatim>\<open>group_lines\<close> sets \<^verbatim>\<open>tok.source\<close> and cuts the sequence after every whitespace token
  that holds a newline.
\<close>

definition NL :: char where
  "NL = CHR 0x0A"

fun split_lines :: "preprocessor \<Rightarrow> nat list \<Rightarrow> nat list \<Rightarrow> nat list list" where
  "split_lines s [] current_line = (if current_line = [] then [] else [current_line])"
| "split_lines s (t # ts) current_line =
     (if is_ws s t \<and> NL \<in> set (val s t) then (current_line @ [t]) # split_lines s ts []
      else split_lines s ts (current_line @ [t]))"

definition group_lines :: "token list \<Rightarrow> string option \<Rightarrow> nat list list M" where
  "group_lines input src =
     bind (mapM (\<lambda>t. new_tok (t\<lparr>source := Attr src\<rparr>)) input) (\<lambda>ts.
     get (\<lambda>s. split_lines s ts []))"

text \<open>The local variables of \<^verbatim>\<open>parsegen\<close>; \<^verbatim>\<open>ifstack\<close> grows at its end.\<close>

record locals =
  chunk :: "nat list"
  enable :: bool
  iftrigger :: bool
  ifstack :: "(bool \<times> bool) list"

text \<open>\<^verbatim>\<open>for tok in self.expand_macros(chunk): yield tok\<close>, then \<^verbatim>\<open>chunk = []\<close>.\<close>

definition flush :: "nat \<Rightarrow> locals \<Rightarrow> locals M" where
  "flush xf l =
     bind (expand_macros xf (chunk l) []) (\<lambda>ts.
     bind (modify (\<lambda>s. s\<lparr>yielded := yielded s @ ts\<rparr>)) (\<lambda>_.
     ret (l\<lparr>chunk := []\<rparr>)))"

definition push :: "locals \<Rightarrow> locals" where
  "push l = l\<lparr>ifstack := ifstack l @ [(enable l, iftrigger l)]\<rparr>"

definition do_ifdef :: "bool \<Rightarrow> nat list \<Rightarrow> locals \<Rightarrow> locals M" where
  "do_ifdef wanted args l =
     (if enable l then
        (case args of
           [] \<Rightarrow> raise IndexError
         | a # _ \<Rightarrow>
             bind (get (\<lambda>s. macros s (val s a) \<noteq> None)) (\<lambda>d.
             ret (if d \<noteq> wanted then (push l)\<lparr>enable := False, iftrigger := False\<rparr>
                  else (push l)\<lparr>iftrigger := True\<rparr>)))
      else ret (push l))"

definition do_if :: "int M \<Rightarrow> locals \<Rightarrow> locals M" where
  "do_if evaluate l =
     (if enable l then
        bind evaluate (\<lambda>result.
        ret (if result = 0 then (push l)\<lparr>enable := False, iftrigger := False\<rparr>
             else (push l)\<lparr>iftrigger := True\<rparr>))
      else ret (push l))"

definition do_elif :: "int M \<Rightarrow> nat list \<Rightarrow> locals \<Rightarrow> locals M" where
  "do_elif evaluate dirtokens l =
     (if ifstack l \<noteq> [] then
        (if fst (last (ifstack l)) then
           (if enable l then ret (l\<lparr>enable := False\<rparr>)
            else if \<not> iftrigger l then
              bind evaluate (\<lambda>result.
              ret (if result \<noteq> 0 then l\<lparr>enable := True, iftrigger := True\<rparr> else l))
            else ret l)
         else ret l)
      else bind (error_first dirtokens ''Misplaced #elif'') (\<lambda>_. ret l))"

definition do_else :: "nat list \<Rightarrow> locals \<Rightarrow> locals M" where
  "do_else dirtokens l =
     (if ifstack l \<noteq> [] then
        (if fst (last (ifstack l)) then
           (if enable l then ret (l\<lparr>enable := False\<rparr>)
            else if \<not> iftrigger l then ret (l\<lparr>enable := True, iftrigger := True\<rparr>)
            else ret l)
         else ret l)
      else bind (error_first dirtokens ''Misplaced #else'') (\<lambda>_. ret l))"

definition do_endif :: "nat list \<Rightarrow> locals \<Rightarrow> locals M" where
  "do_endif dirtokens l =
     (if ifstack l \<noteq> [] then
        ret (l\<lparr>enable := fst (last (ifstack l)), iftrigger := snd (last (ifstack l)),
                ifstack := butlast (ifstack l)\<rparr>)
      else bind (error_first dirtokens ''Misplaced #endif'') (\<lambda>_. ret l))"

text \<open>
  The dispatch on the directive's name. \<open>incl\<close> is \<^verbatim>\<open>self.include\<close> (its tokens go to the
  same output), \<open>src\<close> the local \<^verbatim>\<open>source\<close>.
\<close>

definition directive ::
  "nat \<Rightarrow> (string \<Rightarrow> int option) \<Rightarrow> (nat list \<Rightarrow> unit M) \<Rightarrow> string \<Rightarrow> string \<Rightarrow> nat list \<Rightarrow> nat list
     \<Rightarrow> locals \<Rightarrow> locals M" where
  "directive xf ev incl src name args dirtokens l =
     (if name = ''define'' then
        (if enable l then
           bind (flush xf l) (\<lambda>l. bind (define_tokens args) (\<lambda>_. ret l))
         else ret l)
      else if name = ''include'' then
        (if enable l then
           bind (flush xf l) (\<lambda>l.
           bind (get (\<lambda>s. macros s ''__FILE__'')) (\<lambda>oldfile.
           case oldfile of
             None \<Rightarrow> raise KeyError
           | Some m \<Rightarrow>
               bind (incl args) (\<lambda>_.
               bind (modify (\<lambda>s. s\<lparr>macros := (macros s)(''__FILE__'' \<mapsto> m), cur_source := src\<rparr>)) (\<lambda>_.
               ret l))))
         else ret l)
      else if name = ''undef'' then
        (if enable l then
           bind (flush xf l) (\<lambda>l. bind (undef args) (\<lambda>_. ret l))
         else ret l)
      else if name = ''ifdef'' then do_ifdef True args l
      else if name = ''ifndef'' then do_ifdef False args l
      else if name = ''if'' then do_if (evalexpr xf ev args) l
      else if name = ''elif'' then do_elif (evalexpr xf ev args) dirtokens l
      else if name = ''else'' then do_else dirtokens l
      else if name = ''endif'' then do_endif dirtokens l
      else ret l)"

text \<open>
  One iteration of \<^verbatim>\<open>for x in lines\<close>. \<^verbatim>\<open>group_lines\<close> yields no empty line; on one, the
  loop variable \<^verbatim>\<open>tok\<close> would not be bound.
\<close>

definition parse_line ::
  "nat \<Rightarrow> (string \<Rightarrow> int option) \<Rightarrow> (nat list \<Rightarrow> unit M) \<Rightarrow> string \<Rightarrow> nat list \<Rightarrow> locals \<Rightarrow> locals M" where
  "parse_line xf ev incl src x l =
     (if x = [] then raise UnboundLocalError
      else
        bind (get (\<lambda>s. let k = length (takeWhile (is_ws s) x)
                       in if k < length x then k else length x - 1)) (\<lambda>i.
        bind (get (\<lambda>s. val s (x ! i))) (\<lambda>v.
        if v = ''#'' then
          bind (get (\<lambda>s. filter (\<lambda>t. is_ws s t \<and> NL \<in> set (val s t)) x)) (\<lambda>nls.
          bind (get (\<lambda>s. tokenstrip s (drop (i + 1) x))) (\<lambda>dirtokens.
          bind (get (\<lambda>s. if dirtokens \<noteq> []
                          then (val s (hd dirtokens), tokenstrip s (tl dirtokens))
                          else ([], []))) (\<lambda>(name, args).
          directive xf ev incl src name args dirtokens (l\<lparr>chunk := chunk l @ nls\<rparr>))))
        else ret (if enable l then l\<lparr>chunk := chunk l @ x\<rparr> else l))))"

fun parse_lines :: "(nat list \<Rightarrow> locals \<Rightarrow> locals M) \<Rightarrow> nat list list \<Rightarrow> locals \<Rightarrow> locals M" where
  "parse_lines step [] l = ret l"
| "parse_lines step (x # xs) l = bind (step x l) (parse_lines step xs)"

text \<open>\<^verbatim>\<open>os.path.join\<close> of two components and \<^verbatim>\<open>os.path.dirname\<close> (the POSIX ones).\<close>

definition path_join :: "string \<Rightarrow> string \<Rightarrow> string" where
  "path_join p f =
     (if f \<noteq> [] \<and> hd f = CHR ''/'' then f
      else if p = [] \<or> last p = CHR ''/'' then p @ f
      else p @ ''/'' @ f)"

definition dirname :: "string \<Rightarrow> string" where
  "dirname p =
     (let head = rev (dropWhile (\<lambda>c. c \<noteq> CHR ''/'') (rev p))
      in if head \<noteq> [] \<and> (\<exists>c \<in> set head. c \<noteq> CHR ''/'')
         then rev (dropWhile (\<lambda>c. c = CHR ''/'') (rev head)) else head)"

text \<open>
  \<^verbatim>\<open>for p in path: ... else: self.error(...)\<close>. Every \<^verbatim>\<open>open\<close> is recorded in
  \<open>opened\<close>. \<open>parse\<close> is \<^verbatim>\<open>self.parsegen\<close>.
\<close>

fun search_path ::
  "(token list \<Rightarrow> string option \<Rightarrow> unit M) \<Rightarrow> (string \<Rightarrow> token list option) \<Rightarrow> nat list \<Rightarrow> string
     \<Rightarrow> string list \<Rightarrow> unit M" where
  "search_path parse fs tokens filename [] =
     error_first tokens (''Couldn't find '' @ [CHR 0x27] @ filename @ [CHR 0x27])"
| "search_path parse fs tokens filename (p # ps) =
     bind (modify (\<lambda>s. s\<lparr>opened := opened s @ [path_join p filename]\<rparr>)) (\<lambda>_.
     case fs (path_join p filename) of
       None \<Rightarrow> search_path parse fs tokens filename ps
     | Some data \<Rightarrow>
         (let dname = dirname (path_join p filename) in
          bind (if dname \<noteq> [] then modify (\<lambda>s. s\<lparr>temp_path := dname # temp_path s\<rparr>) else ret ()) (\<lambda>_.
          bind (parse data (Some filename)) (\<lambda>_.
          if dname \<noteq> [] then
            bind (get temp_path) (\<lambda>tp.
            if tp = [] then raise IndexError else modify (\<lambda>s. s\<lparr>temp_path := tl tp\<rparr>))
          else ret ()))))"

text \<open>The directories to search, in order, for the two forms of the directive.\<close>

definition angle_path :: "preprocessor \<Rightarrow> string list" where
  "angle_path s = path s @ [[]] @ temp_path s"

definition quote_path :: "preprocessor \<Rightarrow> string list" where
  "quote_path s = temp_path s @ [[]] @ path s"

definition include_tokens ::
  "nat \<Rightarrow> (token list \<Rightarrow> string option \<Rightarrow> unit M) \<Rightarrow> (string \<Rightarrow> token list option) \<Rightarrow> nat list \<Rightarrow> unit M" where
  "include_tokens xf parse fs tokens =
     (if tokens = [] then ret ()
      else
        bind (get (\<lambda>s. val s (hd tokens) \<noteq> ''<'' \<and> ttype (tok_at s (hd tokens)) \<noteq> CPP_STRING)) (\<lambda>other.
        bind (if other then bind (expand_macros xf tokens []) (\<lambda>ts. get (\<lambda>s. tokenstrip s ts))
              else ret tokens) (\<lambda>tokens.
        if tokens = [] then raise IndexError
        else
          bind (get (\<lambda>s. tok_at s (hd tokens))) (\<lambda>t0.
          if tvalue t0 = ''<'' then
            bind (get (\<lambda>s. 1 + length (takeWhile (\<lambda>t. val s t \<noteq> ''>'') (tl tokens)))) (\<lambda>i.
            if i < length tokens then
              bind (get (\<lambda>s. concat (map (val s) (slice tokens 1 i)))) (\<lambda>filename.
              bind (get angle_path) (search_path parse fs tokens filename))
            else error_first tokens ''Malformed #include <...>'')
          else if ttype t0 = CPP_STRING then
            bind (get quote_path) (search_path parse fs tokens (butlast (tl (tvalue t0))))
          else error_first tokens ''Malformed #include statement''))))"

definition init_locals :: locals where
  "init_locals = \<lparr>chunk = [], enable = True, iftrigger = False, ifstack = []\<rparr>"

text \<open>
  The first argument bounds the depth of nested inclusion (a file that includes itself
  never ends), \<open>xf\<close> bounds each macro expansion.
\<close>

fun parsegen ::
  "nat \<Rightarrow> nat \<Rightarrow> (string \<Rightarrow> int option) \<Rightarrow> (string \<Rightarrow> token list option) \<Rightarrow> token list
     \<Rightarrow> string option \<Rightarrow> unit M" where
  "parsegen 0 xf ev fs input src = (\<lambda>s. OutOfFuel)"
| "parsegen (Suc n) xf ev fs input src =
     bind (group_lines input src) (\<lambda>lines.
     bind (define_text ''__FILE__'' (case src of None \<Rightarrow> [] | Some f \<Rightarrow> f)) (\<lambda>_.
     bind (modify (\<lambda>s. s\<lparr>cur_source := (case src of None \<Rightarrow> [] | Some f \<Rightarrow> f)\<rparr>)) (\<lambda>_.
     bind (parse_lines
             (parse_line xf ev (include_tokens xf (\<lambda>data f. parsegen n xf ev fs data f) fs)
                (case src of None \<Rightarrow> [] | Some f \<Rightarrow> f))
             lines init_locals) (\<lambda>l.
     bind (flush xf l) (\<lambda>_. ret ())))))"

text \<open>
  A preprocessor as \<^verbatim>\<open>__init__\<close> leaves it (the default lexer passes \<^verbatim>\<open>lexprobe\<close>
  silently); \<open>date\<close> and \<open>time\<close> are the two \<^verbatim>\<open>strftime\<close> texts.
\<close>

definition blank_token :: token where
  "blank_token = lexed CPP_WS [] 0"

definition empty_preprocessor :: preprocessor where
  "empty_preprocessor =
     \<lparr>tok_at = (\<lambda>_. blank_token), next_tok = 0, ef_at = (\<lambda>_. []), next_ef = 0,
      macros = (\<lambda>_. None), path = [], temp_path = [], return_code = 0, cur_source = [],
      printed = [], stderr = [], yielded = [], opened = []\<rparr>"

definition new_preprocessor :: "string \<Rightarrow> string \<Rightarrow> preprocessor" where
  "new_preprocessor date time =
     (case bind (define_text ''__DATE__'' date) (\<lambda>_. define_text ''__TIME__'' time) empty_preprocessor of
        Ok _ s \<Rightarrow> s
      | _ \<Rightarrow> empty_preprocessor)"

definition add_path :: "string \<Rightarrow> unit M" where
  "add_path p = modify (\<lambda>s. s\<lparr>path := path s @ [p]\<rparr>)"

text \<open>\<^verbatim>\<open>parse\<close>, with the generator it creates run to its end.\<close>

definition parse ::
  "nat \<Rightarrow> nat \<Rightarrow> (string \<Rightarrow> int option) \<Rightarrow> (string \<Rightarrow> token list option) \<Rightarrow> token list
     \<Rightarrow> string option \<Rightarrow> unit M" where
  "parse n xf ev fs input src =
     bind (case src of
             None \<Rightarrow> ret ()
           | Some f \<Rightarrow> if dirname f \<noteq> [] then modify (\<lambda>s. s\<lparr>temp_path := dirname f # temp_path s\<rparr>)
                       else ret ()) (\<lambda>_.
     parsegen n xf ev fs input src)"

section \<open>token() and write()\<close>

text \<open>\<^verbatim>\<open>tok.type in self.t_SPACE\<close>: \<^verbatim>\<open>t_SPACE\<close> is the string \<^verbatim>\<open>'CPP_WS'\<close>, so this is a substring test.\<close>

definition in_t_SPACE :: "tok_type \<Rightarrow> bool" where
  "in_t_SPACE ty = sublist (type_name ty) ''CPP_WS''"

record writer =
  lastsource :: "string option"
  blankacc :: "nat list list"
  blanklines :: nat
  oh :: "string list"

text \<open>
  \<^verbatim>\<open>for n in xrange(len(toks)-1, -1, -1)\<close>: the first argument is \<open>n + 1\<close>. Deleting
  \<^verbatim>\<open>toks[m]\<close> until \<^verbatim>\<open>m == first_ws\<close> leaves the token that was at \<^verbatim>\<open>first_ws\<close> at \<open>m\<close>.
\<close>

fun ws_collapse :: "nat \<Rightarrow> nat list \<Rightarrow> nat option \<Rightarrow> nat list M" where
  "ws_collapse 0 toks first_ws = ret toks"
| "ws_collapse (Suc n) toks first_ws =
     bind (get (\<lambda>s. tok_at s (toks ! n))) (\<lambda>tk.
     case first_ws of
       None \<Rightarrow>
         ws_collapse n toks (if in_t_SPACE (ttype tk) \<or> tvalue tk = [] then Some n else None)
     | Some fw \<Rightarrow>
         if \<not> in_t_SPACE (ttype tk) \<and> tvalue tk \<noteq> [] then
           (let toks' = take (n + 1) toks @ drop fw toks in
            bind (get (\<lambda>s. val s (toks' ! (n + 1)))) (\<lambda>v.
            if v = [] then raise IndexError
            else
              bind (if hd v = CHR '' '' then set_tok (toks' ! (n + 1)) (\<lambda>x. x\<lparr>tvalue := '' ''\<rparr>)
                    else ret ()) (\<lambda>_.
              ws_collapse n toks' None)))
         else ws_collapse n toks (Some fw))"

text \<open>
  The decision taken at a line that is not all whitespace: whether the line directive is
  written, and the new \<^verbatim>\<open>lastsource\<close>. \<open>src\<close> is the \<^verbatim>\<open>source\<close> of \<^verbatim>\<open>toks[0]\<close>.
\<close>

definition line_decision :: "writer \<Rightarrow> string option attr \<Rightarrow> bool \<times> string option" where
  "line_decision w src =
     (case src of
        Missing \<Rightarrow> (blanklines w > 6, lastsource w)
      | Attr so \<Rightarrow>
          (case lastsource w of
             None \<Rightarrow> (blanklines w > 6, so)
           | Some ls \<Rightarrow> if Some ls \<noteq> so then (True, so) else (blanklines w > 6, Some ls)))"

definition line_marker :: "int \<Rightarrow> string option \<Rightarrow> string" where
  "line_marker l ls =
     ''# '' @ show_int (l - 1)
       @ (case ls of None \<Rightarrow> [] | Some f \<Rightarrow> [CHR '' '', CHR 0x22] @ f @ [CHR 0x22]) @ [NL]"

text \<open>What the loop body does with an accumulated, non-empty line \<^verbatim>\<open>toks\<close>.\<close>

definition end_line :: "nat list \<Rightarrow> bool \<Rightarrow> writer \<Rightarrow> writer M" where
  "end_line toks all_ws w =
     (if all_ws then
        (let toks' = (if length toks > 1 then [last toks] else toks) in
         bind (get (\<lambda>s. length (filter (\<lambda>c. c = NL) (val s (hd toks'))))) (\<lambda>k.
         ret (w\<lparr>blankacc := blankacc w @ [toks'], blanklines := blanklines w + k\<rparr>)))
      else
        bind (get (\<lambda>s. line_decision w (source (tok_at s (hd toks))))) (\<lambda>(emitlinedirective, ls).
        bind (ws_collapse (length toks) toks None) (\<lambda>toks.
        bind (get (\<lambda>s. if emitlinedirective then [line_marker (lineno (tok_at s (hd toks))) ls]
                        else if blanklines w > 0 then map (val s) (concat (blankacc w))
                        else [])) (\<lambda>before.
        bind (get (\<lambda>s. map (val s) toks)) (\<lambda>vs.
        ret (w\<lparr>lastsource := ls, blankacc := [], blanklines := 0, oh := oh w @ before @ vs\<rparr>))))))"

text \<open>
  The two nested \<^verbatim>\<open>while not done\<close> loops, one pulled token at a time: \<open>toks\<close> and
  \<open>all_ws\<close> are those of the line being accumulated.
\<close>

fun write_loop :: "nat list \<Rightarrow> nat list \<Rightarrow> bool \<Rightarrow> writer \<Rightarrow> writer M" where
  "write_loop [] toks all_ws w = (if toks = [] then ret w else end_line toks all_ws w)"
| "write_loop (t # rest) toks all_ws w =
     bind (get (\<lambda>s. val s t)) (\<lambda>v.
     if v = [] then raise IndexError
     else if hd v = NL then
       bind (end_line (toks @ [t]) all_ws w) (write_loop rest [] True)
     else
       bind (get (\<lambda>s. is_ws s t)) (\<lambda>b. write_loop rest (toks @ [t]) (all_ws \<and> b) w))"

definition init_writer :: writer where
  "init_writer = \<lparr>lastsource = None, blankacc = [], blanklines = 0, oh = []\<rparr>"

text \<open>
  \<^verbatim>\<open>write\<close> over the tokens \<^verbatim>\<open>token()\<close> returns: those of the parser whose type is not in
  \<^verbatim>\<open>self.ignore\<close>.
\<close>

definition write_tokens :: "tok_type list \<Rightarrow> writer M" where
  "write_tokens ignore =
     bind (get (\<lambda>s. filter (\<lambda>a. ttype (tok_at s a) \<notin> set ignore) (yielded s))) (\<lambda>stream.
     write_loop stream [] True init_writer)"

section \<open>The conditional-compilation state machine\<close>

text \<open>
  What the directives \<^verbatim>\<open>#if/#ifdef/#ifndef\<close>, \<^verbatim>\<open>#elif\<close>, \<^verbatim>\<open>#else\<close> and \<^verbatim>\<open>#endif\<close> do to
  \<^verbatim>\<open>enable\<close>, \<^verbatim>\<open>iftrigger\<close> and \<^verbatim>\<open>ifstack\<close>, with the outcome of the test (where one is
  made) as a parameter; every other line leaves the three alone.
\<close>

datatype cdir = COpen bool | CElif bool | CElse | CEndif | COther

definition branch :: "bool \<Rightarrow> locals \<Rightarrow> locals" where
  "branch b l =
     (if ifstack l \<noteq> [] \<and> fst (last (ifstack l)) then
        (if enable l then l\<lparr>enable := False\<rparr>
         else if \<not> iftrigger l \<and> b then l\<lparr>enable := True, iftrigger := True\<rparr>
         else l)
      else l)"

fun cstep :: "cdir \<Rightarrow> locals \<Rightarrow> locals" where
  "cstep (COpen b) l =
     (if enable l then (if b then (push l)\<lparr>iftrigger := True\<rparr>
                        else (push l)\<lparr>enable := False, iftrigger := False\<rparr>)
      else push l)"
| "cstep (CElif b) l = branch b l"
| "cstep CElse l = branch True l"
| "cstep CEndif l =
     (if ifstack l \<noteq> [] then
        l\<lparr>enable := fst (last (ifstack l)), iftrigger := snd (last (ifstack l)),
          ifstack := butlast (ifstack l)\<rparr>
      else l)"
| "cstep COther l = l"

definition crun :: "cdir list \<Rightarrow> locals \<Rightarrow> locals" where
  "crun ds l = foldl (\<lambda>l d. cstep d l) l ds"

definition same_cond :: "locals \<Rightarrow> locals \<Rightarrow> bool" where
  "same_cond l l' = (enable l = enable l' \<and> iftrigger l = iftrigger l' \<and> ifstack l = ifstack l')"

text \<open>The directive of the pure machine that a directive name stands for.\<close>

definition label :: "string \<Rightarrow> bool \<Rightarrow> cdir" where
  "label name b =
     (if name \<in> set [''ifdef'', ''ifndef'', ''if''] then COpen b
      else if name = ''elif'' then CElif b
      else if name = ''else'' then CElse
      else if name = ''endif'' then CEndif
      else COther)"

text \<open>
  The directives between an opening directive and its \<^verbatim>\<open>#endif\<close>: \<open>depth_ok ds d\<close> holds
  when \<open>ds\<close>, read at nesting depth \<open>d\<close> inside the frame, never closes the frame itself,
  and \<open>final_depth\<close> is the depth it ends at.
\<close>

fun depth_ok :: "cdir list \<Rightarrow> nat \<Rightarrow> bool" where
  "depth_ok [] d = True"
| "depth_ok (COpen b # ds) d = depth_ok ds (Suc d)"
| "depth_ok (CEndif # ds) d = (d > 0 \<and> depth_ok ds (d - 1))"
| "depth_ok (x # ds) d = depth_ok ds d"

fun final_depth :: "cdir list \<Rightarrow> nat \<Rightarrow> nat" where
  "final_depth [] d = d"
| "final_depth (COpen b # ds) d = final_depth ds (Suc d)"
| "final_depth (CEndif # ds) d = final_depth ds (d - 1)"
| "final_depth (x # ds) d = final_depth ds d"

text \<open>
  The value of \<^verbatim>\<open>enable\<close> on entry to each sibling branch of the frame: after each
  \<^verbatim>\<open>#elif\<close> or \<^verbatim>\<open>#else\<close> at depth 0.
\<close>

fun branch_entries :: "cdir list \<Rightarrow> nat \<Rightarrow> locals \<Rightarrow> bool list" where
  "branch_entries [] d l = []"
| "branch_entries (COpen b # ds) d l = branch_entries ds (Suc d) (cstep (COpen b) l)"
| "branch_entries (CEndif # ds) d l = branch_entries ds (d - 1) (cstep CEndif l)"
| "branch_entries (COther # ds) d l = branch_entries ds d l"
| "branch_entries (x # ds) d l =
     (if d = 0 then enable (cstep x l) # branch_entries ds d (cstep x l)
      else branch_entries ds d (cstep x l))"


lemma do_ifdef_cstep: "do_ifdef w args l s = Ok l' s' \<Longrightarrow> \<exists>b. l' = cstep (COpen b) l"
  by (cases args; cases "enable l")
     (auto simp: do_ifdef_def bind_def get_def ret_def raise_def split: if_splits)

lemma do_if_cstep: "do_if evaluate l s = Ok l' s' \<Longrightarrow> \<exists>b. l' = cstep (COpen b) l"
  by (cases "enable l")
     (auto simp: do_if_def bind_def ret_def split: if_splits result.splits)

lemma do_elif_cstep: "do_elif evaluate dt l s = Ok l' s' \<Longrightarrow> \<exists>b. l' = cstep (CElif b) l"
  by (auto simp: do_elif_def branch_def bind_def ret_def split: if_splits result.splits)

lemma do_else_cstep: "do_else dt l s = Ok l' s' \<Longrightarrow> l' = cstep CElse l"
  by (auto simp: do_else_def branch_def bind_def ret_def split: if_splits result.splits)

lemma do_endif_cstep: "do_endif dt l s = Ok l' s' \<Longrightarrow> l' = cstep CEndif l"
  by (auto simp: do_endif_def bind_def ret_def split: if_splits result.splits)

lemma flush_same: "flush xf l s = Ok l' s' \<Longrightarrow> same_cond l' l"
  by (auto simp: flush_def bind_def ret_def modify_def same_cond_def split: result.splits)

lemma same_cond_refl [simp]: "same_cond l l"
  by (simp add: same_cond_def)

lemma directive_other:
  assumes "directive xf ev incl src name args dirtokens l s = Ok l' s'"
    and "name \<notin> set [''ifdef'', ''ifndef'', ''if'', ''elif'', ''else'', ''endif'']"
  shows "same_cond l' l"
  using assms
  by (auto simp: directive_def bind_def ret_def modify_def raise_def get_def
           split: if_splits result.splits option.splits dest!: flush_same)

lemma directive_cstep:
  assumes "directive xf ev incl src name args dirtokens l s = Ok l' s'"
  shows "\<exists>b. same_cond l' (cstep (label name b) l)"
proof -
  consider (open1) "name = ''ifdef''" | (open2) "name = ''ifndef''" | (open3) "name = ''if''"
    | (elif) "name = ''elif''" | (els) "name = ''else''" | (endif) "name = ''endif''"
    | (other) "name \<notin> set [''ifdef'', ''ifndef'', ''if'', ''elif'', ''else'', ''endif'']"
    by auto
  then show ?thesis
  proof cases
    case open1
    with assms have "do_ifdef True args l s = Ok l' s'" by (simp add: directive_def)
    from do_ifdef_cstep [OF this] obtain b where "l' = cstep (COpen b) l" ..
    then have "same_cond l' (cstep (label name b) l)" by (simp add: open1 label_def)
    then show ?thesis ..
  next
    case open2
    with assms have "do_ifdef False args l s = Ok l' s'" by (simp add: directive_def)
    from do_ifdef_cstep [OF this] obtain b where "l' = cstep (COpen b) l" ..
    then have "same_cond l' (cstep (label name b) l)" by (simp add: open2 label_def)
    then show ?thesis ..
  next
    case open3
    with assms have "do_if (evalexpr xf ev args) l s = Ok l' s'" by (simp add: directive_def)
    from do_if_cstep [OF this] obtain b where "l' = cstep (COpen b) l" ..
    then have "same_cond l' (cstep (label name b) l)" by (simp add: open3 label_def)
    then show ?thesis ..
  next
    case elif
    with assms have "do_elif (evalexpr xf ev args) dirtokens l s = Ok l' s'"
      by (simp add: directive_def)
    from do_elif_cstep [OF this] obtain b where "l' = cstep (CElif b) l" ..
    then have "same_cond l' (cstep (label name b) l)" by (simp add: elif label_def)
    then show ?thesis ..
  next
    case els
    with assms have "do_else dirtokens l s = Ok l' s'" by (simp add: directive_def)
    from do_else_cstep [OF this] have "same_cond l' (cstep (label name True) l)"
      by (simp add: els label_def)
    then show ?thesis ..
  next
    case endif
    with assms have "do_endif dirtokens l s = Ok l' s'" by (simp add: directive_def)
    from do_endif_cstep [OF this] have "same_cond l' (cstep (label name True) l)"
      by (simp add: endif label_def)
    then show ?thesis ..
  next
    case other
    then have "label name True = COther" by (simp add: label_def)
    with directive_other [OF assms other] have "same_cond l' (cstep (label name True) l)"
      by simp
    then show ?thesis ..
  qed
qed

subsection \<open>Frames of the pure machine\<close>

lemma crun_Nil [simp]: "crun [] l = l"
  by (simp add: crun_def)

lemma crun_Cons [simp]: "crun (d # ds) l = crun ds (cstep d l)"
  by (simp add: crun_def)

lemma crun_append: "crun (xs @ ys) l = crun ys (crun xs l)"
  by (simp add: crun_def)

text \<open>
  The pair (\<^verbatim>\<open>enable\<close>, \<^verbatim>\<open>iftrigger\<close>) of the frame itself, seen from depth \<open>d\<close> inside it:
  the current pair at depth 0, the pair a nested frame has saved otherwise.
\<close>

definition frame_pair :: "locals \<Rightarrow> (bool \<times> bool) list \<Rightarrow> bool \<times> bool" where
  "frame_pair l ms = (if ms = [] then (enable l, iftrigger l) else hd ms)"

definition frame_inv :: "locals \<Rightarrow> (bool \<times> bool) list \<Rightarrow> (bool \<times> bool) list \<Rightarrow> bool" where
  "frame_inv l st ms =
     (ifstack l = st @ ms \<and> st \<noteq> [] \<and>
      (fst (frame_pair l ms) \<longrightarrow> snd (frame_pair l ms) \<and> fst (last st)))"

lemma frame_inv_step:
  assumes "frame_inv l st ms" and "depth_ok [x] (length ms)"
  shows "\<exists>ms'. frame_inv (cstep x l) st ms' \<and> length ms' = final_depth [x] (length ms)
           \<and> (snd (frame_pair l ms) \<longrightarrow> snd (frame_pair (cstep x l) ms'))
           \<and> (x \<in> range CElif \<union> {CElse} \<longrightarrow> ms = [] \<longrightarrow> enable (cstep x l) \<longrightarrow>
                 \<not> snd (frame_pair l ms))"
proof (cases x)
  case (COpen b)
  show ?thesis
    using assms COpen
    by (intro exI [of _ "ms @ [(enable l, iftrigger l)]"])
       (auto simp: frame_inv_def frame_pair_def push_def)
next
  case (CElif b)
  show ?thesis
    using assms CElif
    by (intro exI [of _ ms]) (auto simp: frame_inv_def frame_pair_def branch_def)
next
  case CElse
  show ?thesis
    using assms CElse
    by (intro exI [of _ ms]) (auto simp: frame_inv_def frame_pair_def branch_def)
next
  case CEndif
  with assms obtain ms0 p where ms: "ms = ms0 @ [p]"
    by (cases ms rule: rev_cases) auto
  have st: "ifstack l = st @ ms0 @ [p]" "st \<noteq> []"
    using assms(1) ms by (simp_all add: frame_inv_def)
  have fields: "ifstack (cstep CEndif l) = st @ ms0" "enable (cstep CEndif l) = fst p"
    "iftrigger (cstep CEndif l) = snd p"
    using st by (simp_all add: butlast_append)
  have pair: "frame_pair (cstep CEndif l) ms0 = frame_pair l ms"
    by (cases ms0) (simp_all only: fields ms frame_pair_def, simp_all)
  have "fst (frame_pair l ms) \<longrightarrow> snd (frame_pair l ms) \<and> fst (last st)"
    using assms(1) by (simp add: frame_inv_def)
  then have "frame_inv (cstep CEndif l) st ms0"
    unfolding frame_inv_def pair using fields(1) st(2) by blast
  with pair CEndif ms show ?thesis
    by (intro exI [of _ ms0]) auto
next
  case COther
  show ?thesis
    using assms COther by (intro exI [of _ ms]) (auto simp: frame_inv_def)
qed

lemma depth_ok_Cons: "depth_ok (x # ds) d \<longleftrightarrow> depth_ok [x] d \<and> depth_ok ds (final_depth [x] d)"
  by (cases x) auto

lemma final_depth_Cons: "final_depth (x # ds) d = final_depth ds (final_depth [x] d)"
  by (cases x) auto

lemma depth_ok_append:
  "depth_ok (xs @ ys) d \<longleftrightarrow> depth_ok xs d \<and> depth_ok ys (final_depth xs d)"
proof (induction xs arbitrary: d)
  case Nil
  then show ?case by simp
next
  case (Cons x xs)
  show ?case
    using Cons.IH [of "final_depth [x] d"]
    by (simp add: depth_ok_Cons [of x "xs @ ys"] depth_ok_Cons [of x xs] final_depth_Cons [of x xs])
qed

lemma branch_entries_Cons:
  "branch_entries (x # ds) d l =
     (if d = 0 \<and> x \<in> range CElif \<union> {CElse} then [enable (cstep x l)] else [])
       @ branch_entries ds (final_depth [x] d) (cstep x l)"
  by (cases x) auto

lemma frame_inv_run:
  "depth_ok ds (length ms) \<Longrightarrow> frame_inv l st ms \<Longrightarrow>
   \<exists>ms'. frame_inv (crun ds l) st ms' \<and> length ms' = final_depth ds (length ms)
     \<and> (snd (frame_pair l ms) \<longrightarrow> snd (frame_pair (crun ds l) ms'))"
proof (induction ds arbitrary: l ms)
  case Nil
  then show ?case by auto
next
  case (Cons x ds)
  from Cons.prems(1) have ok1: "depth_ok [x] (length ms)"
    and ok2: "depth_ok ds (final_depth [x] (length ms))"
    by (simp_all add: depth_ok_Cons [of x ds])
  from frame_inv_step [OF Cons.prems(2) ok1] obtain ms1 where
    1: "frame_inv (cstep x l) st ms1" "length ms1 = final_depth [x] (length ms)"
       "snd (frame_pair l ms) \<longrightarrow> snd (frame_pair (cstep x l) ms1)"
    by blast
  from ok2 1(2) have "depth_ok ds (length ms1)" by simp
  from Cons.IH [OF this 1(1)] obtain ms' where
    2: "frame_inv (crun ds (cstep x l)) st ms'" "length ms' = final_depth ds (length ms1)"
    "snd (frame_pair (cstep x l) ms1) \<longrightarrow> snd (frame_pair (crun ds (cstep x l)) ms')"
    by blast
  have "length ms' = final_depth (x # ds) (length ms)"
    using 2(2) 1(2) by (simp add: final_depth_Cons [of x ds])
  with 1(3) 2(1,3) show ?case
    by (intro exI [of _ ms']) simp
qed

lemma entries_bound:
  "depth_ok ds (length ms) \<Longrightarrow> frame_inv l st ms \<Longrightarrow>
   count_list (branch_entries ds (length ms) l) True \<le> (if snd (frame_pair l ms) then 0 else 1)"
proof (induction ds arbitrary: l ms)
  case Nil
  then show ?case by simp
next
  case (Cons x ds)
  from Cons.prems(1) have ok1: "depth_ok [x] (length ms)"
    and ok2: "depth_ok ds (final_depth [x] (length ms))"
    by (simp_all add: depth_ok_Cons [of x ds])
  from frame_inv_step [OF Cons.prems(2) ok1] obtain ms1 where
    1: "frame_inv (cstep x l) st ms1" "length ms1 = final_depth [x] (length ms)"
       "snd (frame_pair l ms) \<longrightarrow> snd (frame_pair (cstep x l) ms1)"
       "x \<in> range CElif \<union> {CElse} \<longrightarrow> ms = [] \<longrightarrow> enable (cstep x l) \<longrightarrow> \<not> snd (frame_pair l ms)"
    by blast
  from ok2 1(2) have "depth_ok ds (length ms1)" by simp
  from Cons.IH [OF this 1(1)] 1(2) have
    IH: "count_list (branch_entries ds (final_depth [x] (length ms)) (cstep x l)) True
           \<le> (if snd (frame_pair (cstep x l) ms1) then 0 else 1)"
    by simp
  let ?rest = "count_list (branch_entries ds (final_depth [x] (length ms)) (cstep x l)) True"
  show ?case
  proof (cases "length ms = 0 \<and> x \<in> range CElif \<union> {CElse} \<and> enable (cstep x l)")
    case True
    then have "ms1 = []" using 1(2) by (auto simp: image_iff)
    with True 1(1) have "snd (frame_pair (cstep x l) ms1)"
      by (simp add: frame_inv_def frame_pair_def)
    with IH have "?rest = 0" by simp
    moreover from True 1(4) have "\<not> snd (frame_pair l ms)" by simp
    ultimately show ?thesis
      using True by (simp add: branch_entries_Cons [of x ds])
  next
    case False
    have "?rest \<le> (if snd (frame_pair l ms) then 0 else 1)"
      using IH 1(3) by (simp split: if_splits)
    with False show ?thesis
      by (auto simp: branch_entries_Cons [of x ds])
  qed
qed

lemma frame_inv_open: "frame_inv (cstep (COpen b) l) (ifstack l @ [(enable l, iftrigger l)]) []"
  by (simp add: frame_inv_def frame_pair_def push_def)




section \<open>Concrete inputs and observations\<close>

text \<open>Tokens as the lexer produces them, for the examples: type, spelling, line.\<close>

definition lit :: "char \<Rightarrow> int \<Rightarrow> token" where
  "lit c l = lexed (LIT c) [c] l"

definition ident :: "string \<Rightarrow> int \<Rightarrow> token" where
  "ident v l = lexed CPP_ID v l"

definition integer :: "string \<Rightarrow> int \<Rightarrow> token" where
  "integer v l = lexed CPP_INTEGER v l"

definition strlit :: "string \<Rightarrow> int \<Rightarrow> token" where
  "strlit v l = lexed CPP_STRING ([CHR 0x22] @ v @ [CHR 0x22]) l"

definition blank :: "int \<Rightarrow> token" where
  "blank l = lexed CPP_WS '' '' l"

definition newline :: "int \<Rightarrow> token" where
  "newline l = lexed CPP_WS [NL] l"

definition pound :: "int \<Rightarrow> token" where
  "pound l = lexed CPP_POUND ''#'' l"

definition dpound :: "int \<Rightarrow> token" where
  "dpound l = lexed CPP_DPOUND ''##'' l"

text \<open>
  What a run leaves to observe: the exception raised (if any), and for a run that ended
  (by returning or by raising) \<^verbatim>\<open>return_code\<close>, the printed diagnostics and the text of
  the tokens yielded.
\<close>

definition raised :: "'a result \<Rightarrow> exn option" where
  "raised r = (case r of Raise e s \<Rightarrow> Some e | _ \<Rightarrow> None)"

definition final :: "'a result \<Rightarrow> preprocessor option" where
  "final r = (case r of Ok x s \<Rightarrow> Some s | Raise e s \<Rightarrow> Some s | OutOfFuel \<Rightarrow> None)"

definition yielded_text :: "preprocessor \<Rightarrow> string" where
  "yielded_text s = concat (map (val s) (yielded s))"

section \<open>Directives without an argument\<close>

lemma evalexpr_empty:
  "ev [] = None \<Longrightarrow> evalexpr (Suc (Suc xf)) ev [] s = Raise IndexError s"
  by (simp add: evalexpr_def bind_def ret_def get_def raise_def error_first_def rewrite_expr_def
        replace_str.simps)

lemma do_ifdef_empty: "enable l \<Longrightarrow> do_ifdef w [] l s = Raise IndexError s"
  by (simp add: do_ifdef_def raise_def)

lemma do_if_empty:
  "enable l \<Longrightarrow> ev [] = None \<Longrightarrow> do_if (evalexpr (Suc (Suc xf)) ev []) l s = Raise IndexError s"
  by (simp add: do_if_def bind_def evalexpr_empty)

text \<open>The line \<^verbatim>\<open>#NAME\<close> followed by a newline, as the only line of the input.\<close>

definition bare_directive :: "string \<Rightarrow> token list" where
  "bare_directive name = [pound 1, ident name 1, newline 1]"

lemmas engine_defs =
  parse_def parsegen.simps group_lines_def parse_line_def directive_def init_locals_def
  new_preprocessor_def empty_preprocessor_def blank_token_def define_text_def define_tokens_def
  Macro_def store_macro_def tokenstrip_def is_ws_def val_def NL_def lexed_def
  bind_def ret_def get_def modify_def raise_def new_tok_def

lemmas token_defs =
  lit_def ident_def integer_def strlit_def blank_def newline_def pound_def dpound_def lexed_def

definition unchanged_report :: "'a result \<Rightarrow> bool" where
  "unchanged_report r =
     (raised r = Some IndexError \<and> map_option return_code (final r) = Some 0
      \<and> map_option printed (final r) = Some [])"

lemma parse_bare_ifdef:
  "unchanged_report
     (parse (Suc n) xf ev fs (bare_directive ''ifdef'') src (new_preprocessor date time))"
  by (cases src)
     (simp_all add: engine_defs token_defs bare_directive_def unchanged_report_def raised_def
        final_def do_ifdef_def split: result.splits)

lemma parse_bare_ifndef:
  "unchanged_report
     (parse (Suc n) xf ev fs (bare_directive ''ifndef'') src (new_preprocessor date time))"
  by (cases src)
     (simp_all add: engine_defs token_defs bare_directive_def unchanged_report_def raised_def
        final_def do_ifdef_def split: result.splits)

lemma parse_bare_if:
  "ev [] = None \<Longrightarrow>
   unchanged_report
     (parse (Suc n) (Suc (Suc xf)) ev fs (bare_directive ''if'') src (new_preprocessor date time))"
  by (cases src)
     (simp_all add: engine_defs token_defs bare_directive_def unchanged_report_def raised_def
        final_def do_if_def evalexpr_empty split: result.splits)

text \<open>
  Claim C10. In an enabled region, \<^verbatim>\<open>#ifdef\<close> and \<^verbatim>\<open>#ifndef\<close> without an argument raise
  \<^verbatim>\<open>IndexError\<close> (the subscript \<^verbatim>\<open>args[0]\<close>), and so does \<^verbatim>\<open>#if\<close> without an argument
  when the host's \<^verbatim>\<open>eval\<close> rejects the empty text: \<^verbatim>\<open>evalexpr\<close> reaches its handler,
  whose \<^verbatim>\<open>tokens[0]\<close> is the subscript of an empty list. The state is the one before the
  directive. Parsing such a line as the whole input of a new preprocessor ends with that
  exception, \<^verbatim>\<open>return_code\<close> still 0 and nothing printed.
\<close>

theorem bare_directives_raise:
  "(\<forall>w l s. enable l \<longrightarrow> do_ifdef w [] l s = Raise IndexError s)
   \<and> (\<forall>ev xf l s. enable l \<longrightarrow> ev [] = None \<longrightarrow>
         do_if (evalexpr (Suc (Suc xf)) ev []) l s = Raise IndexError s)
   \<and> (\<forall>n xf ev fs src date time.
         unchanged_report
           (parse (Suc n) xf ev fs (bare_directive ''ifdef'') src (new_preprocessor date time))
         \<and> unchanged_report
           (parse (Suc n) xf ev fs (bare_directive ''ifndef'') src (new_preprocessor date time)))
   \<and> (\<forall>n xf ev fs src date time. ev [] = None \<longrightarrow>
         unchanged_report
           (parse (Suc n) (Suc (Suc xf)) ev fs (bare_directive ''if'') src
              (new_preprocessor date time)))"
  using do_ifdef_empty do_if_empty parse_bare_ifdef parse_bare_ifndef parse_bare_if
  by (intro conjI allI impI) blast+

theorem bare_directives_raise_witness:
  "enable init_locals \<and> py_eval [] = None
   \<and> do_ifdef True [] init_locals empty_preprocessor = Raise IndexError empty_preprocessor
   \<and> do_if (evalexpr 2 py_eval []) init_locals empty_preprocessor
        = Raise IndexError empty_preprocessor
   \<and> unchanged_report
        (parse 1 2 py_eval (\<lambda>f. None) (bare_directive ''if'') (Some ''m.c'')
           (new_preprocessor ''Jan 01 2020'' ''00:00:00''))"
proof -
  have e: "enable init_locals" by (simp add: init_locals_def)
  have p: "py_eval [] = None" by code_simp
  note 1 = bare_directives_raise [THEN conjunct1, rule_format, OF e,
      where w = True and s = empty_preprocessor]
  note 2 = bare_directives_raise [THEN conjunct2, THEN conjunct1, rule_format,
      where ev = py_eval and l = init_locals and xf = 0 and s = empty_preprocessor, OF e p]
  note 3 = bare_directives_raise [THEN conjunct2, THEN conjunct2, THEN conjunct2, rule_format,
      where ev = py_eval and n = 0 and xf = 0 and fs = "\<lambda>f. None" and src = "Some ''m.c''"
        and date = "''Jan 01 2020''" and time = "''00:00:00''", OF p]
  from 2 have w2: "do_if (evalexpr 2 py_eval []) init_locals empty_preprocessor
        = Raise IndexError empty_preprocessor"
    by (simp add: numeral_2_eq_2)
  from 3 have w3: "unchanged_report
        (parse 1 2 py_eval (\<lambda>f. None) (bare_directive ''if'') (Some ''m.c'')
           (new_preprocessor ''Jan 01 2020'' ''00:00:00''))"
    by (simp add: numeral_2_eq_2)
  show ?thesis by (intro conjI e p 1 w2 w3)
qed

section \<open>The rewrite of the expression text\<close>

text \<open>The input \<^verbatim>\<open>#if 1 != 2\<close>, \<^verbatim>\<open>yes\<close>, \<^verbatim>\<open>#endif\<close>.\<close>

definition if_ne_program :: "token list" where
  "if_ne_program =
     [pound 1, ident ''if'' 1, blank 1, integer ''1'' 1, blank 1, lit CHR ''!'' 1, lit CHR ''='' 1,
      blank 1, integer ''2'' 1, newline 1,
      ident ''yes'' 2, newline 2,
      pound 3, ident ''endif'' 3, newline 3]"

lemmas expand_defs =
  expand_macros.simps expand_loop.simps ensure_ef_def get_ef_def append_ef_def stamp_def set_tok_def
  copy_tok_def splice_def slice_def flush_def forM.simps mapM.simps

lemma rewrite_ne: "rewrite_expr ''1 != 2'' = ''1  not = 2''"
  by (simp add: rewrite_expr_def replace_str.simps)

text \<open>
  Claim C2 (the code departs from it). The text of \<^verbatim>\<open>1 != 2\<close> reaches the host's \<^verbatim>\<open>eval\<close>
  as \<^verbatim>\<open>1  not = 2\<close>, because the replacement of \<^verbatim>\<open>!\<close> also rewrites the first character of
  \<^verbatim>\<open>!=\<close>; that text is no expression, so \<^verbatim>\<open>#if 1 != 2\<close> prints the diagnostic, counts it
  and takes the value 0: the line \<^verbatim>\<open>yes\<close> is not yielded (only the newlines of the two
  directive lines are).
\<close>

theorem not_equal_is_rewritten:
  "rewrite_expr ''1 != 2'' = ''1  not = 2''
   \<and> py_eval ''1  not = 2'' = None
   \<and> (case parse 1 9 py_eval (\<lambda>f. None) if_ne_program (Some ''m.c'')
              (new_preprocessor ''Jan 01 2020'' ''00:00:00'') of
         Ok x s \<Rightarrow> return_code s = 1 \<and> printed s = [''m.c:1 Couldn't evaluate expression'']
                     \<and> yielded_text s = [NL, NL]
       | Raise e s \<Rightarrow> False
       | OutOfFuel \<Rightarrow> False)"
  by code_simp

section \<open>Diagnostics and the return code\<close>

text \<open>
  \<open>reports s s'\<close>: from \<open>s\<close> to \<open>s'\<close> some lines were printed, \<^verbatim>\<open>return_code\<close> grew by
  their number, and nothing was written to the standard error.
\<close>

definition reports :: "preprocessor \<Rightarrow> preprocessor \<Rightarrow> bool" where
  "reports s s' =
     (\<exists>ds. printed s' = printed s @ ds \<and> return_code s' = return_code s + int (length ds)
           \<and> stderr s' = stderr s)"

text \<open>\<open>keeps R f\<close>: wherever \<open>f\<close> ends, by returning or by raising, \<open>R\<close> relates the states.\<close>

definition keeps :: "(preprocessor \<Rightarrow> preprocessor \<Rightarrow> bool) \<Rightarrow> 'a M \<Rightarrow> bool" where
  "keeps R f = (\<forall>s. case f s of Ok x s' \<Rightarrow> R s s' | Raise e s' \<Rightarrow> R s s' | OutOfFuel \<Rightarrow> True)"

lemma reports_refl [simp]: "reports s s"
  by (simp add: reports_def)

lemma reports_trans: "reports s s' \<Longrightarrow> reports s' s'' \<Longrightarrow> reports s s''"
  by (auto simp: reports_def)

lemma keeps_ret [intro!]: "keeps reports (ret x)"
  by (simp add: keeps_def ret_def)

lemma keeps_raise [intro!]: "keeps reports (raise e)"
  by (simp add: keeps_def raise_def)

lemma keeps_get [intro!]: "keeps reports (get f)"
  by (simp add: keeps_def get_def)

lemma keeps_fuel [intro!]: "keeps reports (\<lambda>s. OutOfFuel)"
  by (simp add: keeps_def)

lemma keeps_bind [intro!]:
  assumes "keeps reports f" and "\<And>x. keeps reports (g x)"
  shows "keeps reports (bind f g)"
  unfolding keeps_def
proof
  fix s
  show "case bind f g s of Ok x s' \<Rightarrow> reports s s' | Raise e s' \<Rightarrow> reports s s' | OutOfFuel \<Rightarrow> True"
  proof (cases "f s")
    case (Ok x s1)
    with assms(1) have 1: "reports s s1" by (auto simp: keeps_def split: result.splits dest: spec [of _ s])
    from assms(2) [of x] have "case g x s1 of Ok y s' \<Rightarrow> reports s1 s' | Raise e s' \<Rightarrow> reports s1 s' | OutOfFuel \<Rightarrow> True"
      by (simp add: keeps_def)
    with 1 Ok show ?thesis
      by (auto simp: bind_def split: result.splits intro: reports_trans)
  next
    case (Raise e s1)
    with assms(1) show ?thesis
      by (auto simp: keeps_def bind_def split: result.splits dest: spec [of _ s])
  next
    case OutOfFuel
    then show ?thesis by (simp add: bind_def)
  qed
qed

lemma keeps_modify:
  "(\<And>s. printed (f s) = printed s \<and> return_code (f s) = return_code s \<and> stderr (f s) = stderr s)
   \<Longrightarrow> keeps reports (modify f)"
  by (simp add: keeps_def modify_def reports_def)

lemma keeps_state:
  assumes "\<And>s. case f s of
             Ok x s' \<Rightarrow> printed s' = printed s \<and> return_code s' = return_code s \<and> stderr s' = stderr s
           | Raise e s' \<Rightarrow> printed s' = printed s \<and> return_code s' = return_code s \<and> stderr s' = stderr s
           | OutOfFuel \<Rightarrow> True"
  shows "keeps reports f"
  unfolding keeps_def
proof
  fix s
  from assms [of s]
  show "case f s of Ok x s' \<Rightarrow> reports s s' | Raise e s' \<Rightarrow> reports s s' | OutOfFuel \<Rightarrow> True"
    by (cases "f s") (simp_all add: reports_def)
qed

lemma keeps_if [intro!]: "(c \<Longrightarrow> keeps R f) \<Longrightarrow> (\<not> c \<Longrightarrow> keeps R g) \<Longrightarrow> keeps R (if c then f else g)"
  by simp

lemma keeps_option [intro!]:
  "(x = None \<Longrightarrow> keeps R f) \<Longrightarrow> (\<And>y. x = Some y \<Longrightarrow> keeps R (g y)) \<Longrightarrow> keeps R (case x of None \<Rightarrow> f | Some y \<Rightarrow> g y)"
  by (cases x) simp_all

lemma keeps_prod [intro!]:
  "(\<And>a b. p = (a, b) \<Longrightarrow> keeps R (f a b)) \<Longrightarrow> keeps R (case p of (a, b) \<Rightarrow> f a b)"
  by (cases p) simp

lemma keeps_list [intro!]:
  "(x = [] \<Longrightarrow> keeps R f) \<Longrightarrow> (\<And>y ys. x = y # ys \<Longrightarrow> keeps R (g y ys)) \<Longrightarrow> keeps R (case x of [] \<Rightarrow> f | y # ys \<Rightarrow> g y ys)"
  by (cases x) simp_all

lemma keeps_let [intro!]: "keeps R (f x) \<Longrightarrow> keeps R (let y = x in f y)"
  by simp

lemma keeps_error [intro!]: "keeps reports (error file line msg)"
  by (simp add: keeps_def error_def modify_def reports_def)

lemma keeps_error_tok [intro!]: "keeps reports (error_tok a msg)"
  by (auto simp: keeps_def error_tok_def error_def modify_def reports_def split: attr.splits)

lemma keeps_error_first [intro!]: "keeps reports (error_first ts msg)"
  unfolding error_first_def by auto

lemma keeps_error_last [intro!]: "keeps reports (error_last ts msg)"
  unfolding error_last_def by auto

lemma keeps_mapM [intro!]: "(\<And>x. keeps reports (f x)) \<Longrightarrow> keeps reports (mapM f xs)"
  by (induction xs) auto

lemma keeps_forM [intro!]: "(\<And>x. keeps reports (f x)) \<Longrightarrow> keeps reports (forM xs f)"
  by (induction xs) auto

lemma keeps_new_tok [intro!]: "keeps reports (new_tok t)"
  by (rule keeps_state) (simp add: new_tok_def)

lemma keeps_copy_tok [intro!]: "keeps reports (copy_tok a)"
  by (simp add: copy_tok_def keeps_def new_tok_def reports_def)

lemma keeps_set_tok [intro!]: "keeps reports (set_tok a f)"
  unfolding set_tok_def by (rule keeps_modify) simp

lemma keeps_ensure_ef [intro!]: "keeps reports (ensure_ef a)"
  by (rule keeps_state) (simp add: ensure_ef_def split: attr.splits)

lemma keeps_get_ef [intro!]: "keeps reports (get_ef a)"
  by (rule keeps_state) (simp add: get_ef_def split: attr.splits)

lemma keeps_append_ef [intro!]: "keeps reports (append_ef a n)"
  by (rule keeps_state) (simp add: append_ef_def split: attr.splits)

lemma keeps_stamp [intro!]: "keeps reports (stamp t e)"
  unfolding stamp_def by auto

lemma keeps_collect_args [intro!]: "keeps reports (collect_args ts ie)"
  unfolding keeps_def
proof
  fix s
  show "case collect_args ts ie s of Ok x s' \<Rightarrow> reports s s' | Raise e s' \<Rightarrow> reports s s'
        | OutOfFuel \<Rightarrow> True"
    by (simp add: collect_args_def Let_def bind_def ret_def error_first_def error_last_def
          error_tok_def error_def modify_def raise_def reports_def
          split: option.splits list.splits attr.splits)
qed


lemma keeps_stringify [intro!]: "keeps reports (stringify arg)"
  unfolding stringify_def by auto

lemma keeps_apply_str_patch [intro!]: "keeps reports (apply_str_patch ps args memo rep)"
  by (induction ps args memo rep rule: apply_str_patch.induct) auto

lemma keeps_apply_comma_patch [intro!]: "keeps reports (apply_comma_patch is rep)"
  by (induction "is" rep rule: apply_comma_patch.induct) auto

lemma keeps_apply_patch [intro!]:
  "(\<And>ts. keeps reports (expand ts)) \<Longrightarrow> keeps reports (apply_patch expand ps args expanded rep)"
  by (induction expand ps args expanded rep rule: apply_patch.induct) auto

lemma keeps_macro_expand_args [intro!]:
  "(\<And>ts. keeps reports (expand ts)) \<Longrightarrow> keeps reports (macro_expand_args expand m args)"
  unfolding macro_expand_args_def by auto

lemma keeps_expand:
  "keeps reports (expand_macros n ts E) \<and> keeps reports (expand_loop n E i ts)"
proof (induction n arbitrary: ts E i)
  case 0
  show ?case by auto
next
  case (Suc n)
  have 1: "keeps reports (expand_macros n ts E)" for ts E using Suc by blast
  have 2: "keeps reports (expand_loop n E i ts)" for ts E i using Suc by blast
  show ?case
    by (auto simp del: expand_macros.simps expand_loop.simps simp: expand_macros.simps(2) expand_loop.simps(2) intro!: 1 2)
qed


lemma keeps_expand_macros [intro!]: "keeps reports (expand_macros n ts E)"
  using keeps_expand by blast

lemma keeps_defined_loop [intro!]: "keeps reports (defined_loop ti ts j np res)"
  by (induction ts arbitrary: j np res) (auto simp: Let_def)

lemma keeps_defined_pass [intro!]: "keeps reports (defined_pass k i ts)"
  by (induction k arbitrary: i ts) auto

lemma keeps_integer_pass [intro!]: "keeps reports (integer_pass t)"
  unfolding integer_pass_def by auto

lemma keeps_evalexpr [intro!]: "keeps reports (evalexpr xf ev ts)"
  unfolding evalexpr_def by auto

lemma keeps_define_params [intro!]: "keeps reports (define_params name n args vari done)"
  by (induction name n args vari "done" rule: define_params.induct) auto

lemma keeps_Macro [intro!]: "keeps reports (Macro name v al vari)"
  unfolding Macro_def by auto

lemma keeps_store_macro [intro!]: "keeps reports (store_macro m)"
  unfolding store_macro_def by (rule keeps_modify) simp

lemma prescan_loop_rel:
  assumes rfl: "\<And>s. R s s"
    and stp: "\<And>s a. R s (s\<lparr>tok_at := (tok_at s)(next_tok s := a), next_tok := next_tok s + 1\<rparr>)"
    and trn: "\<And>s s' s''. R s s' \<Longrightarrow> R s' s'' \<Longrightarrow> R s s''"
  shows "R s (snd (macro_prescan_loop al vari va i v p sp vcp s))"
proof (induction al vari va i v p sp vcp s rule: macro_prescan_loop.induct)
  case (1 al vari va i v p sp vcp s)
  note IH = 1
  let ?L = "macro_prescan_loop al vari va i v p sp vcp s"
  show ?case
  proof (cases "i < length v")
    case False
    then have "?L = ((v, p, sp, vcp), s)" by (subst macro_prescan_loop.simps) simp
    then show ?thesis by (simp add: rfl)
  next
    case a: True
    show ?thesis
    proof (cases "is_param s al (v ! i)")
      case b: True
      define k where "k = length (takeWhile (is_ws s) (rev (take i v)))"
      show ?thesis
      proof (cases "k < i \<and> val s (v ! (i - 1 - k)) = ''#''")
        case c: True
        define s' where "s' = s\<lparr>tok_at := (tok_at s)(next_tok s := (tok_at s (v ! i))\<lparr>ttype := CPP_STRING\<rparr>),
                             next_tok := next_tok s + 1\<rparr>"
        have e: "?L = macro_prescan_loop al vari va (i - 1 - k) (take (i - 1 - k) v @ next_tok s # drop (i + 1) v) p
                      (sp @ [(index_of al (val s (v ! i)), i - 1 - k)]) vcp s'"
          using a b c by (subst macro_prescan_loop.simps) (simp add: Let_def k_def [symmetric] s'_def)
        have "R s' (snd ?L)"
          unfolding e using a b c
          by (intro IH(1) [OF a b refl k_def _ refl refl]) (simp_all add: s'_def)
        moreover have "R s s'" unfolding s'_def by (rule stp)
        ultimately show ?thesis by (rule trn [rotated])
      next
        case c: False
        show ?thesis
        proof (cases "0 < i \<and> val s (v ! (i - 1)) = ''##''")
          case d: True
          have e: "?L = macro_prescan_loop al vari va i (take (i - 1) v @ drop i v)
                  (p @ [(PC, index_of al (val s (v ! i)), i - 1)]) sp vcp s"
            using a b c d by (subst macro_prescan_loop.simps) (auto simp: Let_def k_def [symmetric])
          show ?thesis unfolding e using a b c d
            by (intro IH(2) [OF a b refl k_def]) simp_all
        next
          case d: False
          show ?thesis
          proof (cases "i + 1 < length v \<and> val s (v ! (i + 1)) = ''##''")
            case f: True
            have e: "?L = macro_prescan_loop al vari va (i + 1) v (p @ [(PC, index_of al (val s (v ! i)), i)]) sp vcp s"
              using a b c d f by (subst macro_prescan_loop.simps) (auto simp: Let_def k_def [symmetric])
            show ?thesis unfolding e using a b c d f
              by (intro IH(3) [OF a b refl k_def]) simp_all
          next
            case f: False
            have e: "?L = macro_prescan_loop al vari va (i + 1) v (p @ [(PE, index_of al (val s (v ! i)), i)]) sp vcp s"
              using a b c d f by (subst macro_prescan_loop.simps) (auto simp: Let_def k_def [symmetric])
            show ?thesis unfolding e using a b c d f
              by (intro IH(4) [OF a b refl k_def]) simp_all
          qed
        qed
      qed
    next
      case b: False
      show ?thesis
      proof (cases "val s (v ! i) = ''##''")
        case c: True
        show ?thesis
        proof (cases "vari \<and> 0 < i \<and> val s (v ! (i - 1)) = '','' \<and> i + 1 < length v
                \<and> ttype (tok_at s (v ! (i + 1))) = CPP_ID \<and> val s (v ! (i + 1)) = va")
          case d: True
          have e: "?L = macro_prescan_loop al vari va (i + 1) v p sp (vcp @ [i - 1]) s"
            using a b c d by (subst macro_prescan_loop.simps) (auto simp: Let_def)
          show ?thesis unfolding e using a b c d
            by (intro IH(5)) simp_all
        next
          case d: False
          have e: "?L = macro_prescan_loop al vari va (i + 1) v p sp vcp s"
            using a b c d by (subst macro_prescan_loop.simps) (auto simp: Let_def)
          show ?thesis unfolding e using a b c d
            by (intro IH(6)) simp_all
        qed
      next
        case c: False
        have e: "?L = macro_prescan_loop al vari va (i + 1) v p sp vcp s"
          using a b c by (subst macro_prescan_loop.simps) simp
        show ?thesis unfolding e using a b c
          by (intro IH(7)) simp_all
      qed
    qed
  qed
qed

lemma keeps_macro_prescan [intro!]:
  "keeps reports (\<lambda>s. case macro_prescan m s of (m', s') \<Rightarrow> Ok m' s')"
proof (rule keeps_state)
  fix s
  let ?R = "\<lambda>s s'. printed s' = printed s \<and> return_code s' = return_code s \<and> stderr s' = stderr s"
  have "?R s (snd (macro_prescan_loop al vari va i v p sp vcp s))" for al vari va i v p sp vcp
    by (rule prescan_loop_rel) simp_all
  then show "case (case macro_prescan m s of (m', s') \<Rightarrow> Ok m' s') of
          Ok x s' \<Rightarrow> ?R s s' | Raise e s' \<Rightarrow> ?R s s' | OutOfFuel \<Rightarrow> True"
    by (simp add: macro_prescan_def split: prod.splits) (metis snd_conv)
qed

lemma keeps_define_tokens [intro!]: "keeps reports (define_tokens ts)"
  unfolding define_tokens_def by auto

lemma keeps_define_text [intro!]: "keeps reports (define_text name str)"
  unfolding define_text_def by auto

lemma keeps_undef [intro!]: "keeps reports (undef ts)"
  unfolding undef_def by (auto intro: keeps_modify)

lemma keeps_flush [intro!]: "keeps reports (flush xf l)"
  unfolding flush_def by (auto intro: keeps_modify)

lemma keeps_do_ifdef [intro!]: "keeps reports (do_ifdef w args l)"
  unfolding do_ifdef_def by auto

lemma keeps_do_if [intro!]: "keeps reports ev \<Longrightarrow> keeps reports (do_if ev l)"
  unfolding do_if_def by auto

lemma keeps_do_elif [intro!]: "keeps reports ev \<Longrightarrow> keeps reports (do_elif ev dt l)"
  unfolding do_elif_def by auto

lemma keeps_do_else [intro!]: "keeps reports (do_else dt l)"
  unfolding do_else_def by auto

lemma keeps_do_endif [intro!]: "keeps reports (do_endif dt l)"
  unfolding do_endif_def by auto

lemma keeps_directive [intro!]:
  assumes "\<And>ts. keeps reports (incl ts)"
  shows "keeps reports (directive xf ev incl src name args dt l)"
  unfolding directive_def
  by (intro keeps_if keeps_bind keeps_option keeps_ret keeps_raise keeps_get keeps_flush
        keeps_define_tokens keeps_undef keeps_do_ifdef keeps_do_if keeps_do_elif keeps_do_else
        keeps_do_endif keeps_evalexpr assms keeps_modify)
     simp_all

lemma keeps_parse_line [intro!]:
  "(\<And>ts. keeps reports (incl ts)) \<Longrightarrow> keeps reports (parse_line xf ev incl src x l)"
  unfolding parse_line_def
  by (intro keeps_if keeps_bind keeps_prod keeps_ret keeps_raise keeps_get keeps_directive) simp_all

lemma keeps_parse_lines [intro!]:
  "(\<And>x l. keeps reports (step x l)) \<Longrightarrow> keeps reports (parse_lines step xs l)"
  by (induction xs arbitrary: l) auto

lemma keeps_search_path [intro!]:
  "(\<And>d f. keeps reports (prs d f)) \<Longrightarrow> keeps reports (search_path prs fs ts fn ps)"
  by (induction ps) (auto intro: keeps_modify simp: Let_def)

lemma keeps_include_tokens [intro!]:
  "(\<And>d f. keeps reports (prs d f)) \<Longrightarrow> keeps reports (include_tokens xf prs fs ts)"
  unfolding include_tokens_def by auto

lemma keeps_group_lines [intro!]: "keeps reports (group_lines input src)"
  unfolding group_lines_def by auto

lemma keeps_parsegen [intro!]: "keeps reports (parsegen n xf ev fs input src)"
  by (induction n arbitrary: input src) (auto intro: keeps_modify)

lemma keeps_parse [intro!]: "keeps reports (parse n xf ev fs input src)"
  unfolding parse_def by (auto intro: keeps_modify)


lemma new_preprocessor_report:
  "return_code (new_preprocessor date time) = int (length (printed (new_preprocessor date time)))
   \<and> stderr (new_preprocessor date time) = []"
proof -
  let ?f = "bind (define_text ''__DATE__'' date) (\<lambda>_. define_text ''__TIME__'' time)"
  have "keeps reports ?f" by auto
  then have "case ?f empty_preprocessor of
               Ok x s' \<Rightarrow> reports empty_preprocessor s'
             | Raise e s' \<Rightarrow> reports empty_preprocessor s'
             | OutOfFuel \<Rightarrow> True"
    by (simp add: keeps_def)
  then show ?thesis
    by (cases "?f empty_preprocessor")
       (simp_all add: new_preprocessor_def reports_def, simp_all add: empty_preprocessor_def)
qed

lemma run_report:
  assumes "final (parse n xf ev fs input src (new_preprocessor date time)) = Some s'"
  shows "return_code s' = int (length (printed s')) \<and> stderr s' = []"
proof -
  let ?s = "new_preprocessor date time"
  have "keeps reports (parse n xf ev fs input src)" by auto
  then have "case parse n xf ev fs input src ?s of
               Ok x s' \<Rightarrow> reports ?s s' | Raise e s' \<Rightarrow> reports ?s s' | OutOfFuel \<Rightarrow> True"
    by (simp add: keeps_def)
  with assms have "reports ?s s'"
    by (cases "parse n xf ev fs input src ?s") (simp_all add: final_def)
  then show ?thesis
    by (auto simp: reports_def new_preprocessor_report)
qed

text \<open>The input \<^verbatim>\<open>#else\<close> alone on its line, outside every conditional.\<close>

definition misplaced_else :: "token list" where
  "misplaced_else = [pound 1, ident ''else'' 1, newline 1]"




end
